theory Spec2Isabelle
  imports Complex_Main "HOL-Library.Word" "HOL-Library.Signed_Division"
begin

unbundle bit_operations_syntax

section \<open>Machine types of the driver\<close>

text \<open>
  The C++ integer types are fixed-width words. A signed and an unsigned type of the
  same width share one word type; the sign lives in the conversion that reads or widens
  the value (\<open>sint\<close>, \<open>scast\<close> for the signed types, \<open>unat\<close>, \<open>ucast\<close> for the unsigned
  ones). Arithmetic on words wraps around, shifting a signed value right is arithmetic
  (\<open>signed_drop_bit\<close>), and \<open>float\<close> results are modelled by the exact real quotient.
\<close>

type_synonym uint8_t = "8 word"
type_synonym int8_t = "8 word"
type_synonym uint16_t = "16 word"
type_synonym int16_t = "16 word"
type_synonym int32_t = "32 word"
type_synonym uint32_t = "32 word"
type_synonym int64_t = "64 word"

text \<open>Integer promotion of a byte to \<open>int\<close>, as C++ applies it before \<open><<\<close>, \<open>>>\<close>, \<open>|\<close>, \<open>&\<close>.\<close>

definition promote :: "uint8_t \<Rightarrow> int32_t" where
  "promote b = ucast b"

section \<open>Register map and configuration constants (bme280\_driver.h)\<close>

abbreviation BME280_REG_ID :: uint8_t where "BME280_REG_ID \<equiv> 0xD0"
abbreviation BME280_REG_RESET :: uint8_t where "BME280_REG_RESET \<equiv> 0xE0"
abbreviation BME280_REG_STATUS :: uint8_t where "BME280_REG_STATUS \<equiv> 0xF3"
abbreviation BME280_REG_CTRL_MEAS :: uint8_t where "BME280_REG_CTRL_MEAS \<equiv> 0xF4"
abbreviation BME280_REG_CONFIG :: uint8_t where "BME280_REG_CONFIG \<equiv> 0xF5"
abbreviation BME280_REG_CTRL_HUM :: uint8_t where "BME280_REG_CTRL_HUM \<equiv> 0xF2"
abbreviation BME280_REG_PRESS_MSB :: uint8_t where "BME280_REG_PRESS_MSB \<equiv> 0xF7"
abbreviation BME280_REG_TEMP_MSB :: uint8_t where "BME280_REG_TEMP_MSB \<equiv> 0xFA"
abbreviation BME280_REG_HUM_MSB :: uint8_t where "BME280_REG_HUM_MSB \<equiv> 0xFD"
abbreviation BME280_REG_DIG_T1 :: uint8_t where "BME280_REG_DIG_T1 \<equiv> 0x88"
abbreviation BME280_REG_DIG_H1 :: uint8_t where "BME280_REG_DIG_H1 \<equiv> 0xA1"
abbreviation BME280_REG_DIG_H2 :: uint8_t where "BME280_REG_DIG_H2 \<equiv> 0xE1"

definition BME280_TEMP_OSR :: int32_t where "BME280_TEMP_OSR = 0x01"
definition BME280_PRES_OSR :: int32_t where "BME280_PRES_OSR = 0x01"
definition BME280_HUM_OSR :: int32_t where "BME280_HUM_OSR = 0x01"
definition BME280_MODE :: int32_t where "BME280_MODE = 0x03"

section \<open>Driver state\<close>

record BME280_CalibrationData =
  dig_T1 :: uint16_t
  dig_T2 :: int16_t
  dig_T3 :: int16_t
  dig_P1 :: uint16_t
  dig_P2 :: int16_t
  dig_P3 :: int16_t
  dig_P4 :: int16_t
  dig_P5 :: int16_t
  dig_P6 :: int16_t
  dig_P7 :: int16_t
  dig_P8 :: int16_t
  dig_P9 :: int16_t
  dig_H1 :: uint8_t
  dig_H2 :: int16_t
  dig_H3 :: uint8_t
  dig_H4 :: int16_t
  dig_H5 :: int16_t
  dig_H6 :: int8_t

record BME280_Driver =
  deviceAddress :: uint8_t
  calibData :: BME280_CalibrationData
  t_fine :: int32_t

text \<open>
  The constructor stores the address and zeroes \<open>t_fine\<close>; it leaves \<open>calibData\<close>
  uninitialised, so whatever the memory holds is a parameter here.
\<close>

definition BME280_Driver_new :: "uint8_t \<Rightarrow> BME280_CalibrationData \<Rightarrow> BME280_Driver" where
  "BME280_Driver_new addr uninit =
     \<lparr>deviceAddress = addr, calibData = uninit, t_fine = 0\<rparr>"

section \<open>The two-wire bus\<close>

text \<open>
  The bus and the sensor behind it are outside the driver. They are modelled as the
  object \<open>wire\<close> points to: \<open>device n r\<close> is the byte register \<open>r\<close> holds when the
  \<open>n\<close>-th read transaction reaches the sensor (any sensor behaviour is such a function;
  a burst read sees one snapshot and the register address auto-increments), \<open>reads\<close>
  counts the read transactions made so far, and \<open>traffic\<close> records every transaction
  in order. \<open>delay\<close> only lets time pass and leaves no trace on the bus.
\<close>

datatype bus_op =
  BusRead uint8_t uint8_t nat
  | BusWrite uint8_t uint8_t uint8_t

record TwoWire =
  device :: "nat \<Rightarrow> uint8_t \<Rightarrow> uint8_t"
  reads :: nat
  traffic :: "bus_op list"

fun is_write :: "bus_op \<Rightarrow> bool" where
  "is_write (BusWrite a r v) = True"
| "is_write (BusRead a r n) = False"

definition readRegister :: "BME280_Driver \<Rightarrow> uint8_t \<Rightarrow> TwoWire \<Rightarrow> uint8_t \<times> TwoWire" where
  "readRegister d reg w =
     (device w (reads w) reg,
      w\<lparr>reads := Suc (reads w),
        traffic := traffic w @ [BusRead (deviceAddress d) reg 1]\<rparr>)"

definition readRegisters ::
  "BME280_Driver \<Rightarrow> uint8_t \<Rightarrow> nat \<Rightarrow> TwoWire \<Rightarrow> uint8_t list \<times> TwoWire" where
  "readRegisters d reg len w =
     (map (\<lambda>i. device w (reads w) (reg + of_nat i)) [0..<len],
      w\<lparr>reads := Suc (reads w),
        traffic := traffic w @ [BusRead (deviceAddress d) reg len]\<rparr>)"

definition writeRegister :: "BME280_Driver \<Rightarrow> uint8_t \<Rightarrow> uint8_t \<Rightarrow> TwoWire \<Rightarrow> TwoWire" where
  "writeRegister d reg v w =
     w\<lparr>traffic := traffic w @ [BusWrite (deviceAddress d) reg v]\<rparr>"

definition reset :: "BME280_Driver \<Rightarrow> TwoWire \<Rightarrow> TwoWire" where
  "reset d w = writeRegister d BME280_REG_RESET 0xB6 w"

definition getChipID :: "BME280_Driver \<Rightarrow> TwoWire \<Rightarrow> uint8_t \<times> TwoWire" where
  "getChipID d w = readRegister d BME280_REG_ID w"

definition isMeasuring :: "BME280_Driver \<Rightarrow> TwoWire \<Rightarrow> bool \<times> TwoWire" where
  "isMeasuring d w =
     (let (status, w1) = readRegister d BME280_REG_STATUS w
      in (status AND 0x08 \<noteq> 0, w1))"

section \<open>Calibration data\<close>

text \<open>
  \<open>buffer\<close> is the 24-byte array of the source; the second burst read overwrites its
  first seven bytes. Each coefficient is computed in \<open>int\<close> and truncated to the width
  of its field on assignment.
\<close>

definition readCalibrationData :: "BME280_Driver \<Rightarrow> TwoWire \<Rightarrow> BME280_Driver \<times> TwoWire" where
  "readCalibrationData d w =
     (let (buffer, w1) = readRegisters d BME280_REG_DIG_T1 24 w;
          c = (calibData d)
            \<lparr>dig_T1 := ucast (push_bit 8 (promote (buffer ! 1)) OR promote (buffer ! 0)),
             dig_T2 := ucast (push_bit 8 (promote (buffer ! 3)) OR promote (buffer ! 2)),
             dig_T3 := ucast (push_bit 8 (promote (buffer ! 5)) OR promote (buffer ! 4)),
             dig_P1 := ucast (push_bit 8 (promote (buffer ! 7)) OR promote (buffer ! 6)),
             dig_P2 := ucast (push_bit 8 (promote (buffer ! 9)) OR promote (buffer ! 8)),
             dig_P3 := ucast (push_bit 8 (promote (buffer ! 11)) OR promote (buffer ! 10)),
             dig_P4 := ucast (push_bit 8 (promote (buffer ! 13)) OR promote (buffer ! 12)),
             dig_P5 := ucast (push_bit 8 (promote (buffer ! 15)) OR promote (buffer ! 14)),
             dig_P6 := ucast (push_bit 8 (promote (buffer ! 17)) OR promote (buffer ! 16)),
             dig_P7 := ucast (push_bit 8 (promote (buffer ! 19)) OR promote (buffer ! 18)),
             dig_P8 := ucast (push_bit 8 (promote (buffer ! 21)) OR promote (buffer ! 20)),
             dig_P9 := ucast (push_bit 8 (promote (buffer ! 23)) OR promote (buffer ! 22))\<rparr>;
          (h1, w2) = readRegister d BME280_REG_DIG_H1 w1;
          c = c\<lparr>dig_H1 := h1\<rparr>;
          (bytes, w3) = readRegisters d BME280_REG_DIG_H2 7 w2;
          buffer = bytes @ drop 7 buffer;
          c = c
            \<lparr>dig_H2 := ucast (push_bit 8 (promote (buffer ! 1)) OR promote (buffer ! 0)),
             dig_H3 := buffer ! 2,
             dig_H4 := ucast (push_bit 4 (promote (buffer ! 3)) OR (promote (buffer ! 4) AND 0x0F)),
             dig_H5 := ucast (push_bit 4 (promote (buffer ! 5))
                              OR signed_drop_bit 4 (promote (buffer ! 4))),
             dig_H6 := buffer ! 6\<rparr>
      in (d\<lparr>calibData := c\<rparr>, w3))"

section \<open>Compensation formulas\<close>

definition compensateTemperature :: "BME280_Driver \<Rightarrow> int32_t \<Rightarrow> int32_t \<times> BME280_Driver" where
  "compensateTemperature d adcTemp =
     (let c = calibData d;
          var1 = signed_drop_bit 11
                   ((signed_drop_bit 3 adcTemp - push_bit 1 (ucast (dig_T1 c)))
                    * scast (dig_T2 c));
          var2 = signed_drop_bit 14
                   (signed_drop_bit 12
                      ((signed_drop_bit 4 adcTemp - ucast (dig_T1 c))
                       * (signed_drop_bit 4 adcTemp - ucast (dig_T1 c)))
                    * scast (dig_T3 c));
          tf = var1 + var2;
          temperature = signed_drop_bit 8 (tf * 5 + 128)
      in (temperature, d\<lparr>t_fine := tf\<rparr>))"

text \<open>
  Signed 64-bit division truncates towards zero. Dividing by zero, and dividing the least
  value by \<open>-1\<close>, have no defined result in C++: the model returns \<open>None\<close> there.
\<close>

definition div_int64 :: "int64_t \<Rightarrow> int64_t \<Rightarrow> int64_t option" where
  "div_int64 a b =
     (if b = 0 then None
      else if sint a = - (2 ^ 63) \<and> sint b = - 1 then None
      else Some (word_of_int (sint a sdiv sint b)))"

text \<open>
  The two terms \<open>var1\<close> and \<open>var2\<close> of the pressure formula as they stand when the
  source tests \<open>var1 == 0\<close>.
\<close>

definition pressure_var2 :: "BME280_Driver \<Rightarrow> int64_t" where
  "pressure_var2 d =
     (let c = calibData d;
          var1 = scast (t_fine d) - 128000;
          var2 = var1 * var1 * scast (dig_P6 c);
          var2 = var2 + push_bit 17 (var1 * scast (dig_P5 c));
          var2 = var2 + push_bit 35 (scast (dig_P4 c))
      in var2)"

definition pressure_var1 :: "BME280_Driver \<Rightarrow> int64_t" where
  "pressure_var1 d =
     (let c = calibData d;
          var1 = scast (t_fine d) - 128000;
          var1 = signed_drop_bit 8 (var1 * var1 * scast (dig_P3 c))
                 + push_bit 12 (var1 * scast (dig_P2 c));
          var1 = signed_drop_bit 33 ((push_bit 47 1 + var1) * ucast (dig_P1 c))
      in var1)"

definition compensatePressure :: "BME280_Driver \<Rightarrow> int32_t \<Rightarrow> uint32_t option" where
  "compensatePressure d adcPres =
     (let c = calibData d;
          var2 = pressure_var2 d;
          var1 = pressure_var1 d
      in if var1 = 0 then Some 0
         else
           let p = scast (1048576 - adcPres :: int32_t)
           in case div_int64 ((push_bit 31 p - var2) * 3125) var1 of
                None \<Rightarrow> None
              | Some p \<Rightarrow>
                  let var1 = signed_drop_bit 25
                               (scast (dig_P9 c) * signed_drop_bit 13 p * signed_drop_bit 13 p);
                      var2 = signed_drop_bit 19 (scast (dig_P8 c) * p);
                      p = signed_drop_bit 8 (p + var1 + var2) + push_bit 4 (scast (dig_P7 c))
                  in Some (ucast p))"

definition compensateHumidity :: "BME280_Driver \<Rightarrow> int32_t \<Rightarrow> uint32_t" where
  "compensateHumidity d adcHum =
     (let c = calibData d;
          v_x1_u32r = t_fine d - 76800;
          v_x1_u32r =
            signed_drop_bit 15
              (push_bit 14 adcHum - push_bit 20 (scast (dig_H4 c))
               - scast (dig_H5 c) * v_x1_u32r + 16384)
            * signed_drop_bit 14
                ((signed_drop_bit 10
                    (signed_drop_bit 10 (v_x1_u32r * scast (dig_H6 c))
                     * (signed_drop_bit 11 (v_x1_u32r * ucast (dig_H3 c)) + 32768))
                  + 2097152)
                 * scast (dig_H2 c) + 8192);
          v_x1_u32r =
            v_x1_u32r
            - signed_drop_bit 4
                (signed_drop_bit 7 (signed_drop_bit 15 v_x1_u32r * signed_drop_bit 15 v_x1_u32r)
                 * ucast (dig_H1 c));
          v_x1_u32r = (if sint v_x1_u32r < 0 then 0 else v_x1_u32r);
          v_x1_u32r = (if sint v_x1_u32r > 419430400 then 419430400 else v_x1_u32r)
      in signed_drop_bit 12 v_x1_u32r)"

section \<open>Public read operations\<close>

definition readTemperature :: "BME280_Driver \<Rightarrow> TwoWire \<Rightarrow> real \<times> BME280_Driver \<times> TwoWire" where
  "readTemperature d w =
     (let (buffer, w1) = readRegisters d BME280_REG_TEMP_MSB 3 w;
          adcTemp = push_bit 12 (promote (buffer ! 0)) OR push_bit 4 (promote (buffer ! 1))
                    OR signed_drop_bit 4 (promote (buffer ! 2));
          (tempComp, d1) = compensateTemperature d adcTemp
      in (real_of_int (sint tempComp) / 100, d1, w1))"

definition readPressure ::
  "BME280_Driver \<Rightarrow> TwoWire \<Rightarrow> (real \<times> BME280_Driver \<times> TwoWire) option" where
  "readPressure d w =
     (let (d1, w1) = (if t_fine d = 0 then snd (readTemperature d w) else (d, w));
          (buffer, w2) = readRegisters d1 BME280_REG_PRESS_MSB 3 w1;
          adcPres = push_bit 12 (promote (buffer ! 0)) OR push_bit 4 (promote (buffer ! 1))
                    OR signed_drop_bit 4 (promote (buffer ! 2))
      in case compensatePressure d1 adcPres of
           None \<Rightarrow> None
         | Some presComp \<Rightarrow> Some (real (unat presComp) / 100, d1, w2))"

definition readHumidity :: "BME280_Driver \<Rightarrow> TwoWire \<Rightarrow> real \<times> BME280_Driver \<times> TwoWire" where
  "readHumidity d w =
     (let (d1, w1) = (if t_fine d = 0 then snd (readTemperature d w) else (d, w));
          (buffer, w2) = readRegisters d1 BME280_REG_HUM_MSB 2 w1;
          adcHum = push_bit 8 (promote (buffer ! 0)) OR promote (buffer ! 1);
          humComp = compensateHumidity d1 adcHum
      in (real (unat humComp) / 1024, d1, w2))"

section \<open>Initialisation\<close>

text \<open>
  \<open>begin\<close> is a keyword of Isabelle, so the function is named \<open>begin_bme280\<close>.
  The polling loop of \<open>begin\<close>: read the status register, and while bit 0 is set, wait
  and read again. A run that never leaves the loop has the value \<open>None\<close>.
\<close>

partial_function (option) begin_wait :: "BME280_Driver \<Rightarrow> TwoWire \<Rightarrow> TwoWire option" where
  "begin_wait d w =
     (case readRegister d BME280_REG_STATUS w of
        (status, w1) \<Rightarrow> if status AND 0x01 \<noteq> 0 then begin_wait d w1 else Some w1)"

text \<open>The local \<open>config\<close> of \<open>begin\<close>: an \<open>int\<close> expression stored in a \<open>uint8_t\<close>.\<close>

definition ctrl_meas_config :: uint8_t where
  "ctrl_meas_config =
     ucast (push_bit 5 BME280_TEMP_OSR OR push_bit 2 BME280_PRES_OSR OR BME280_MODE)"

definition begin_bme280 :: "BME280_Driver \<Rightarrow> TwoWire \<Rightarrow> (bool \<times> BME280_Driver \<times> TwoWire) option" where
  "begin_bme280 d w =
     (let (chipId, w1) = getChipID d w
      in if chipId \<noteq> 0x60 then Some (False, d, w1)
         else
           let w2 = reset d w1
           in case begin_wait d w2 of
                None \<Rightarrow> None
              | Some w3 \<Rightarrow>
                  let (d1, w4) = readCalibrationData d w3;
                      w5 = writeRegister d1 BME280_REG_CTRL_HUM (ucast BME280_HUM_OSR) w4;
                      config = ctrl_meas_config;
                      w6 = writeRegister d1 BME280_REG_CTRL_MEAS config w5;
                      w7 = writeRegister d1 BME280_REG_CONFIG 0x00 w6
                  in Some (True, d1, w7))"

section \<open>Sequences of calls after initialisation\<close>

datatype driver_call = ReadTemperature | ReadPressure | ReadHumidity | GetChipID | IsMeasuring

fun call :: "driver_call \<Rightarrow> BME280_Driver \<times> TwoWire \<Rightarrow> (BME280_Driver \<times> TwoWire) option" where
  "call ReadTemperature (d, w) = Some (snd (readTemperature d w))"
| "call ReadPressure (d, w) = map_option snd (readPressure d w)"
| "call ReadHumidity (d, w) = Some (snd (readHumidity d w))"
| "call GetChipID (d, w) = Some (d, snd (getChipID d w))"
| "call IsMeasuring (d, w) = Some (d, snd (isMeasuring d w))"

fun calls :: "driver_call list \<Rightarrow> BME280_Driver \<times> TwoWire \<Rightarrow> (BME280_Driver \<times> TwoWire) option" where
  "calls [] s = Some s"
| "calls (c # cs) s = (case call c s of None \<Rightarrow> None | Some s1 \<Rightarrow> calls cs s1)"

section \<open>Observations on the bus and example inputs\<close>

declare begin_wait.simps [code]

text \<open>
  \<open>busy w n\<close>: the status register read by the \<open>n\<close>-th read transaction has bit 0
  (calibration copy in progress) set. \<open>polled d k w\<close> is the bus after \<open>k\<close> reads of the
  status register.
\<close>

definition busy :: "TwoWire \<Rightarrow> nat \<Rightarrow> bool" where
  "busy w n \<longleftrightarrow> device w n BME280_REG_STATUS AND 0x01 \<noteq> 0"

definition polled :: "BME280_Driver \<Rightarrow> nat \<Rightarrow> TwoWire \<Rightarrow> TwoWire" where
  "polled d k w =
     w\<lparr>reads := reads w + k,
       traffic := traffic w @ replicate k (BusRead (deviceAddress d) BME280_REG_STATUS 1)\<rparr>"

text \<open>
  The transactions of a successful \<open>begin\<close> that leaves the polling loop at the
  \<open>k+1\<close>-th read of the status register, for the device at address \<open>a\<close>.
\<close>

definition begin_traffic :: "uint8_t \<Rightarrow> nat \<Rightarrow> bus_op list" where
  "begin_traffic a k =
     [BusRead a BME280_REG_ID 1, BusWrite a BME280_REG_RESET 0xB6]
     @ replicate (Suc k) (BusRead a BME280_REG_STATUS 1)
     @ [BusRead a BME280_REG_DIG_T1 24, BusRead a BME280_REG_DIG_H1 1,
        BusRead a BME280_REG_DIG_H2 7,
        BusWrite a BME280_REG_CTRL_HUM 0x01,
        BusWrite a BME280_REG_CTRL_MEAS 0x27,
        BusWrite a BME280_REG_CONFIG 0x00]"

text \<open>
  \<open>burst w n reg len\<close>: the bytes a burst read of \<open>len\<close> registers from \<open>reg\<close> returns
  when it is the \<open>n\<close>-th read transaction.
\<close>

definition burst :: "TwoWire \<Rightarrow> nat \<Rightarrow> uint8_t \<Rightarrow> nat \<Rightarrow> uint8_t list" where
  "burst w n reg len = map (\<lambda>i. device w n (reg + of_nat i)) [0..<len]"

text \<open>The transactions a call has added to the bus, and the bytes written to one register.\<close>

definition new_traffic :: "TwoWire \<Rightarrow> TwoWire \<Rightarrow> bus_op list" where
  "new_traffic w w' = drop (length (traffic w)) (traffic w')"

fun writes_to :: "uint8_t \<Rightarrow> bus_op list \<Rightarrow> uint8_t list" where
  "writes_to r [] = []"
| "writes_to r (BusWrite a r' v # ops) = (if r' = r then v # writes_to r ops else writes_to r ops)"
| "writes_to r (BusRead a r' n # ops) = writes_to r ops"

text \<open>
  Example inputs: the calibration set and the raw values of the worked example in the
  sensor's datasheet, a sensor that answers the identity check and is ready at once, one
  that is absent (every read returns 0xFF), one whose status bit 0 stays set for ever, and
  one that is busy for the first three polls.
\<close>

definition example_calib :: BME280_CalibrationData where
  "example_calib =
     \<lparr>dig_T1 = 27504, dig_T2 = 26435, dig_T3 = - 1000,
      dig_P1 = 36477, dig_P2 = - 10685, dig_P3 = 3024, dig_P4 = 2855, dig_P5 = 140,
      dig_P6 = - 7, dig_P7 = 15500, dig_P8 = - 14600, dig_P9 = 6000,
      dig_H1 = 75, dig_H2 = 360, dig_H3 = 0, dig_H4 = 315, dig_H5 = 50, dig_H6 = 30\<rparr>"

definition example_driver :: BME280_Driver where
  "example_driver = BME280_Driver_new 0x76 example_calib"

definition ready_wire :: TwoWire where
  "ready_wire =
     \<lparr>device = (\<lambda>n r. if r = BME280_REG_ID then 0x60 else 0), reads = 0, traffic = []\<rparr>"

definition absent_wire :: TwoWire where
  "absent_wire = \<lparr>device = (\<lambda>n r. 0xFF), reads = 0, traffic = []\<rparr>"

definition stuck_wire :: TwoWire where
  "stuck_wire =
     \<lparr>device = (\<lambda>n r. if r = BME280_REG_ID then 0x60 else 0x01), reads = 0, traffic = []\<rparr>"

definition slow_wire :: TwoWire where
  "slow_wire =
     \<lparr>device = (\<lambda>n r. if r = BME280_REG_ID then 0x60
                        else if r = BME280_REG_STATUS \<and> n < 4 then 0x01 else 0),
      reads = 0, traffic = []\<rparr>"

text \<open>
  A sensor whose registers hold the datasheet example: its calibration registers encode
  \<open>example_calib\<close>, its data registers the raw values 415148 (pressure), 519888
  (temperature) and 30000 (humidity); it is ready at once and its registers never change.
\<close>

definition sensor_regs :: "uint8_t \<Rightarrow> uint8_t" where
  "sensor_regs r =
     (case map_of
        [(0xD0, 0x60), (0xF3, 0x00),
         (0x88, 0x70), (0x89, 0x6B), (0x8A, 0x43), (0x8B, 0x67), (0x8C, 0x18), (0x8D, 0xFC),
         (0x8E, 0x7D), (0x8F, 0x8E), (0x90, 0x43), (0x91, 0xD6), (0x92, 0xD0), (0x93, 0x0B),
         (0x94, 0x27), (0x95, 0x0B), (0x96, 0x8C), (0x97, 0x00), (0x98, 0xF9), (0x99, 0xFF),
         (0x9A, 0x8C), (0x9B, 0x3C), (0x9C, 0xF8), (0x9D, 0xC6), (0x9E, 0x70), (0x9F, 0x17),
         (0xA1, 0x4B), (0xE1, 0x68), (0xE2, 0x01), (0xE3, 0x00), (0xE4, 0x13), (0xE5, 0x2B),
         (0xE6, 0x03), (0xE7, 0x1E),
         (0xF7, 0x65), (0xF8, 0x5A), (0xF9, 0xC0),
         (0xFA, 0x7E), (0xFB, 0xED), (0xFC, 0x00),
         (0xFD, 0x75), (0xFE, 0x30)] r of
        Some v \<Rightarrow> v
      | None \<Rightarrow> 0)"

definition example_wire :: TwoWire where
  "example_wire = \<lparr>device = (\<lambda>n. sensor_regs), reads = 0, traffic = []\<rparr>"

text \<open>
  A driver whose pressure divisor is zero (\<open>dig_P1 = 0\<close>), and a sensor at the freezing
  point (raw temperature 440064, for which the example calibration gives \<open>t_fine = 0\<close>)
  whose pressure and humidity registers change between the second and the third read.
\<close>

definition degenerate_driver :: BME280_Driver where
  "degenerate_driver =
     \<lparr>deviceAddress = 0x76, calibData = example_calib\<lparr>dig_P1 := 0\<rparr>, t_fine = 128422\<rparr>"

definition freezing_wire :: TwoWire where
  "freezing_wire =
     \<lparr>device = (\<lambda>n r. if r = 0xFA then 0x6B else if r = 0xFB then 0x70
                        else if r = 0xF7 then (if n = 1 then 0x65 else 0x66)
                        else if r = 0xFD then (if n = 1 then 0x75 else 0x80) else 0),
      reads = 0, traffic = []\<rparr>"

text \<open>A sensor at the freezing point whose registers never change.\<close>

definition still_wire :: TwoWire where
  "still_wire =
     \<lparr>device = (\<lambda>n r. if r = 0xFA then 0x6B else if r = 0xFB then 0x70
                        else if r = 0xF7 then 0x65 else if r = 0xFD then 0x75 else 0),
      reads = 0, traffic = []\<rparr>"

section \<open>The temperature formula of the datasheet\<close>

text \<open>
  The reference the temperature compensation is compared with: the two-term formula of
  the sensor's datasheet, read over the integers. \<open>wrap32\<close> is the value a signed 32-bit
  variable holds after an operation whose mathematical result is its argument; shifts to
  the right are divisions rounding down. Differences of shifted raw values and \<open>T1\<close>
  cannot leave the 32-bit range, so only the products and the sums are wrapped.
  \<open>raw20\<close> is the 20-bit raw value the three data bytes stand for.
\<close>

definition wrap32 :: "int \<Rightarrow> int" where
  "wrap32 x = signed_take_bit 31 x"

definition raw20 :: "uint8_t \<Rightarrow> uint8_t \<Rightarrow> uint8_t \<Rightarrow> int" where
  "raw20 msb lsb xlsb = uint msb * 4096 + uint lsb * 16 + uint xlsb div 16"

text \<open>The 16-bit raw value the two humidity data bytes stand for.\<close>

definition raw16 :: "uint8_t \<Rightarrow> uint8_t \<Rightarrow> int" where
  "raw16 msb lsb = uint msb * 256 + uint lsb"

definition datasheet_t_fine :: "int \<Rightarrow> int \<Rightarrow> int \<Rightarrow> int \<Rightarrow> int" where
  "datasheet_t_fine T1 T2 T3 adc_T =
     (let var1 = wrap32 ((adc_T div 8 - T1 * 2) * T2) div 2048;
          var2 = wrap32 (wrap32 ((adc_T div 16 - T1) * (adc_T div 16 - T1)) div 4096 * T3)
                 div 16384
      in wrap32 (var1 + var2))"

definition datasheet_T :: "int \<Rightarrow> int" where
  "datasheet_T tf = wrap32 (tf * 5 + 128) div 256"

section \<open>Word arithmetic\<close>

lemma nonneg_sint_unat:
  fixes v :: "'a::len word"
  assumes "0 \<le> sint v"
  shows "int (unat v) = sint v"
proof -
  have "sint v < 2 ^ (LENGTH('a) - 1)" by (rule sint_lt)
  also have "\<dots> \<le> (2 :: int) ^ LENGTH('a)" by (rule power_increasing) simp_all
  finally have "take_bit LENGTH('a) (sint v) = sint v"
    using assms by (simp add: take_bit_int_eq_self)
  then show ?thesis by (simp add: uint_sint [symmetric])
qed

lemma bit_15_iff: "bit (15 :: 32 word) n \<longleftrightarrow> n < 4"
proof -
  have "bit (mask 4 :: 32 word) n \<longleftrightarrow> n < 4" by (auto simp add: bit_simps)
  then show ?thesis by (simp add: mask_eq_exp_minus_1)
qed

lemma small_sint16:
  fixes x :: "32 word"
  assumes "take_bit 12 x = x"
  shows "sint (ucast x :: 16 word) \<in> {0..4095}"
proof -
  have lt: "uint x < 2 ^ 12"
    by (metis assms take_bit_int_less_exp unsigned_take_bit_eq)
  have u: "uint (ucast x :: 16 word) = uint x"
    using lt by (simp add: unsigned_ucast_eq take_bit_int_eq_self)
  have "- (2 ^ 15) \<le> uint x"
    by (rule order_trans [of _ 0]) simp_all
  moreover have "uint x < 2 ^ 15"
    using lt by simp
  ultimately have "signed_take_bit 15 (uint x) = uint x"
    by (rule signed_take_bit_int_eq_self)
  then have "sint (ucast x :: 16 word) = uint x"
    by (simp add: sint_uint u)
  with lt show ?thesis by simp
qed

lemma wrap32_id: "- (2 ^ 31) \<le> x \<Longrightarrow> x < 2 ^ 31 \<Longrightarrow> wrap32 x = x"
  unfolding wrap32_def by (rule signed_take_bit_int_eq_self)

lemma sint32_arith:
  fixes a b :: "32 word"
  shows "sint (a + b) = wrap32 (sint a + sint b)"
    and "sint (a - b) = wrap32 (sint a - sint b)"
    and "sint (a * b) = wrap32 (sint a * sint b)"
  by (simp_all add: sint_word_ariths wrap32_def)

lemma sint32_sdb: "sint (signed_drop_bit n (a :: 32 word)) = sint a div 2 ^ n"
  by (simp add: sint_signed_drop_bit_eq drop_bit_eq_div)

lemma sint32_of_small:
  fixes a :: "32 word"
  assumes "uint a < 2 ^ 31"
  shows "sint a = uint a"
proof -
  have "- (2 ^ 31) \<le> uint a" by (rule order_trans [of _ 0]) simp_all
  then have "signed_take_bit 31 (uint a) = uint a"
    using assms by (rule signed_take_bit_int_eq_self)
  then show ?thesis by (simp add: sint_uint)
qed

lemma uint_promote: "uint (promote b) = uint b"
  by (simp add: promote_def unsigned_ucast_eq take_bit_int_eq_self
      order_less_trans [OF uint_lt2p [of b]])

lemma uint8_bound: "uint (b :: 8 word) < 256" "0 \<le> uint b"
  using uint_lt2p [of b] by simp_all

lemma assemble_int:
  fixes M L X :: int
  assumes "0 \<le> M" "0 \<le> L" "L < 256" "0 \<le> X" "X < 16"
  shows "push_bit 12 M OR push_bit 4 L OR X = M * 4096 + L * 16 + X"
proof -
  have x: "take_bit 4 X = X" using assms by (simp add: take_bit_int_eq_self)
  have "push_bit 4 L OR X = concat_bit 4 X L"
    by (simp add: concat_bit_def x or.commute)
  also have "\<dots> = X + L * 16"
    by (simp add: concat_bit_eq x push_bit_eq_mult)
  finally have lx: "push_bit 4 L OR X = L * 16 + X" by simp
  have "0 \<le> L * 16 + X" "L * 16 + X < 2 ^ 12" using assms by simp_all
  then have t: "take_bit 12 (L * 16 + X) = L * 16 + X"
    by (simp add: take_bit_int_eq_self)
  have "push_bit 12 M OR (L * 16 + X) = concat_bit 12 (L * 16 + X) M"
    by (simp add: concat_bit_def t or.commute)
  also have "\<dots> = (L * 16 + X) + M * 4096"
    by (simp add: concat_bit_eq t push_bit_eq_mult)
  finally show ?thesis
    by (simp add: lx or.assoc)
qed

lemma nibble_bound: "0 \<le> uint (x :: 8 word) div 16" "uint (x :: 8 word) div 16 < 16"
proof -
  show "0 \<le> uint x div 16" by (simp add: pos_imp_zdiv_nonneg_iff)
  have "uint x < 16 * 16" using uint_lt2p [of x] by simp
  then show "uint x div 16 < 16" by (simp add: div_less_iff_less_mult del: uint_lt2p)
qed

lemma raw20_range: "0 \<le> raw20 m l x" "raw20 m l x < 2 ^ 20"
  using uint8_bound [of m] uint8_bound [of l] nibble_bound [of x]
  unfolding raw20_def by simp_all

lemma sdb_promote: "signed_drop_bit 4 (promote x) = drop_bit 4 (promote x)"
  by (rule bit_word_eqI) (auto simp add: promote_def bit_simps dest: bit_imp_le_length)

lemma uint_push_promote:
  assumes "n \<le> 12"
  shows "uint (push_bit n (promote b)) = push_bit n (uint b)"
proof -
  have "push_bit n (uint b) < 2 ^ n * 2 ^ 8"
    using uint_lt2p [of b] by (simp add: push_bit_eq_mult)
  also have "\<dots> = (2 :: int) ^ (n + 8)" by (simp add: power_add)
  also have "\<dots> \<le> 2 ^ 32" using assms by (intro power_increasing) simp_all
  finally have "push_bit n (uint b) < 2 ^ 32" .
  moreover have "0 \<le> push_bit n (uint b)" by (simp add: push_bit_eq_mult)
  ultimately have "take_bit 32 (push_bit n (uint b)) = push_bit n (uint b)"
    by (simp add: take_bit_int_eq_self)
  then show ?thesis
    by (simp only: unsigned_push_bit_eq uint_promote) simp
qed

lemma assemble_uint:
  "uint (push_bit 12 (promote m) OR push_bit 4 (promote l) OR signed_drop_bit 4 (promote x))
     = raw20 m l x"
proof -
  have x: "uint (signed_drop_bit 4 (promote x)) = uint x div 16"
    by (simp add: sdb_promote uint_div uint_promote drop_bit_eq_div)
  show ?thesis
    using uint8_bound [of m] uint8_bound [of l] nibble_bound [of x]
    by (simp only: uint_or uint_push_promote x assemble_int raw20_def) 
qed

lemma assemble_sint:
  "sint (push_bit 12 (promote m) OR push_bit 4 (promote l) OR signed_drop_bit 4 (promote x))
     = raw20 m l x"
proof -
  have "raw20 m l x < 2 ^ 31"
    using raw20_range(2) [of m l x] by simp
  then show ?thesis
    by (simp add: sint32_of_small assemble_uint)
qed


lemma sint_ucast16:
  "sint (ucast (t :: 16 word) :: 32 word) = uint t"
proof -
  have "uint t < 2 ^ 16" using uint_lt2p [of t] by simp
  then have u: "uint (ucast t :: 32 word) = uint t"
    by (simp add: unsigned_ucast_eq take_bit_int_eq_self)
  have "uint t < 2 ^ 31" using \<open>uint t < 2 ^ 16\<close> by simp
  then show ?thesis by (simp add: sint32_of_small u)
qed

lemma sint_scast16:
  "sint (scast (t :: 16 word) :: 32 word) = sint t"
proof -
  have "- (2 ^ 15) \<le> sint t" "sint t < 2 ^ 15"
    using sint_ge [of t] sint_lt [of t] by simp_all
  then have "- (2 ^ 31) \<le> sint t" "sint t < 2 ^ 31" by simp_all
  then have "signed_take_bit 31 (sint t) = sint t"
    by (rule signed_take_bit_int_eq_self)
  then show ?thesis by (simp add: signed_scast_eq)
qed

lemma wrap32_wrap32_add: "wrap32 (wrap32 x + 128) = wrap32 (x + 128)"
proof -
  have "wrap32 128 = 128" by (rule wrap32_id) simp_all
  then show ?thesis
    using signed_take_bit_add [of 31 x 128] by (simp add: wrap32_def)
qed

lemma word_of_sint: "word_of_int (sint w) = (w :: 'a::len word)"
  by (simp flip: scast_eq)

lemma compensateTemperature_datasheet:
  fixes adc :: "32 word" and d :: BME280_Driver
  assumes A: "0 \<le> sint adc" "sint adc < 2 ^ 20"
  defines "tf \<equiv> datasheet_t_fine (uint (dig_T1 (calibData d))) (sint (dig_T2 (calibData d)))
                   (sint (dig_T3 (calibData d))) (sint adc)"
  shows "compensateTemperature d adc
           = (word_of_int (datasheet_T tf), d\<lparr>t_fine := word_of_int tf\<rparr>)
         \<and> sint (fst (compensateTemperature d adc)) = datasheet_T tf
         \<and> sint (t_fine (snd (compensateTemperature d adc))) = tf"
proof -
  define T1 where "T1 = uint (dig_T1 (calibData d))"
  define T2 where "T2 = sint (dig_T2 (calibData d))"
  define T3 where "T3 = sint (dig_T3 (calibData d))"
  define X :: "32 word" where "X = signed_drop_bit 3 adc - push_bit 1 (ucast (dig_T1 (calibData d)))"
  define Y :: "32 word" where "Y = signed_drop_bit 4 adc - ucast (dig_T1 (calibData d))"
  define var1 :: "32 word" where "var1 = signed_drop_bit 11 (X * scast (dig_T2 (calibData d)))"
  define var2 :: "32 word"
    where "var2 = signed_drop_bit 14 (signed_drop_bit 12 (Y * Y) * scast (dig_T3 (calibData d)))"
  have T1: "0 \<le> T1" "T1 < 2 ^ 16"
    using uint_lt2p [of "dig_T1 (calibData d)"] by (simp_all add: T1_def)
  have a8: "0 \<le> sint adc div 8" "sint adc div 8 < 2 ^ 17"
    using A by (simp_all add: pos_imp_zdiv_nonneg_iff div_less_iff_less_mult)
  have a16: "0 \<le> sint adc div 16" "sint adc div 16 < 2 ^ 16"
    using A by (simp_all add: pos_imp_zdiv_nonneg_iff div_less_iff_less_mult)
  have p: "push_bit 1 (ucast (dig_T1 (calibData d)) :: 32 word) = ucast (dig_T1 (calibData d)) * 2"
    by (simp add: push_bit_eq_mult)
  have "sint (ucast (dig_T1 (calibData d)) * 2 :: 32 word) = wrap32 (T1 * 2)"
    by (simp add: sint32_arith sint_ucast16 T1_def)
  also have "\<dots> = T1 * 2" using T1 by (intro wrap32_id) simp_all
  finally have t2: "sint (push_bit 1 (ucast (dig_T1 (calibData d))) :: 32 word) = T1 * 2"
    by (simp only: p)
  have "sint X = wrap32 (sint adc div 8 - T1 * 2)"
    unfolding X_def by (simp only: sint32_arith sint32_sdb t2) simp
  also have "\<dots> = sint adc div 8 - T1 * 2"
    using a8 T1 by (intro wrap32_id) simp_all
  finally have X: "sint X = sint adc div 8 - T1 * 2" .
  have "sint Y = wrap32 (sint adc div 16 - T1)"
    unfolding Y_def by (simp only: sint32_arith sint32_sdb sint_ucast16 T1_def) simp
  also have "\<dots> = sint adc div 16 - T1"
    using a16 T1 by (intro wrap32_id) simp_all
  finally have Y: "sint Y = sint adc div 16 - T1" .
  have v1: "sint var1 = wrap32 ((sint adc div 8 - T1 * 2) * T2) div 2048"
    unfolding var1_def by (simp only: sint32_sdb sint32_arith sint_scast16 X T2_def) simp
  have v2: "sint var2 = wrap32 (wrap32 ((sint adc div 16 - T1) * (sint adc div 16 - T1)) div 4096 * T3)
               div 16384"
    unfolding var2_def by (simp only: sint32_sdb sint32_arith sint_scast16 Y T3_def) simp
  have tf: "sint (var1 + var2) = tf"
    by (simp only: sint32_arith v1 v2 tf_def datasheet_t_fine_def Let_def T1_def T2_def T3_def)
  have tfw: "var1 + var2 = word_of_int tf"
    by (simp add: tf [symmetric])
  define tw :: "32 word" where "tw = var1 + var2"
  have stw: "sint tw = tf" by (simp only: tw_def tf)
  have "sint (signed_drop_bit 8 (tw * 5 + 128)) = wrap32 (wrap32 (tf * 5) + 128) div 256"
    by (simp only: sint32_sdb sint32_arith stw) simp
  also have "\<dots> = datasheet_T tf"
    by (simp add: wrap32_wrap32_add datasheet_T_def)
  finally have s8: "sint (signed_drop_bit 8 (tw * 5 + 128)) = datasheet_T tf" .
  then have e8: "signed_drop_bit 8 (tw * 5 + 128) = word_of_int (datasheet_T tf)"
    using word_of_sint [of "signed_drop_bit 8 (tw * 5 + 128)"] by simp
  then have r: "compensateTemperature d adc
                  = (word_of_int (datasheet_T tf), d\<lparr>t_fine := word_of_int tf\<rparr>)"
    by (simp add: compensateTemperature_def Let_def tfw [symmetric] tw_def var1_def var2_def
        X_def Y_def)
  have "sint (word_of_int (datasheet_T tf) :: 32 word) = datasheet_T tf"
    using s8 e8 by simp
  moreover have "sint (word_of_int tf :: 32 word) = tf"
    using stw tfw by (simp add: tw_def)
  ultimately show ?thesis
    by (simp add: r)
qed

section \<open>The polling loop\<close>

lemma begin_wait_polls:
  "(\<forall>i<k. busy w (reads w + i)) \<Longrightarrow> \<not> busy w (reads w + k) \<Longrightarrow>
   begin_wait d w = Some (polled d (Suc k) w)"
proof (induction k arbitrary: w)
  case 0
  then show ?case
    by (subst begin_wait.simps) (simp add: readRegister_def busy_def polled_def)
next
  case (Suc k)
  let ?w1 = "snd (readRegister d BME280_REG_STATUS w)"
  have b0: "busy w (reads w)" using Suc.prems(1) [rule_format, of 0] by simp
  have "\<forall>i<k. busy ?w1 (reads ?w1 + i)"
    using Suc.prems(1) by (auto simp: readRegister_def busy_def)
  moreover have "\<not> busy ?w1 (reads ?w1 + k)"
    using Suc.prems(2) by (simp add: readRegister_def busy_def)
  ultimately have "begin_wait d ?w1 = Some (polled d (Suc k) ?w1)"
    by (rule Suc.IH)
  moreover have "polled d (Suc k) ?w1 = polled d (Suc (Suc k)) w"
    by (simp add: polled_def readRegister_def replicate_append_same)
  ultimately show ?case
    using b0 by (subst begin_wait.simps) (simp add: readRegister_def busy_def)
qed

lemma begin_wait_Some:
  assumes "begin_wait d w = Some w'"
  shows "\<exists>k. (\<forall>i<k. busy w (reads w + i)) \<and> \<not> busy w (reads w + k)
              \<and> w' = polled d (Suc k) w"
  using assms
proof (induction rule: begin_wait.raw_induct [rotated 1, consumes 1, case_names step])
  case (step f d w w')
  let ?w1 = "snd (readRegister d BME280_REG_STATUS w)"
  show ?case
  proof (cases "busy w (reads w)")
    case False
    with step(2) have "w' = polled d (Suc 0) w"
      by (simp add: readRegister_def busy_def polled_def)
    with False show ?thesis by (intro exI [of _ 0]) simp
  next
    case True
    with step(2) have "f d ?w1 = Some w'"
      by (simp add: readRegister_def busy_def)
    from step(1) [OF this] obtain k where
      k: "\<forall>i<k. busy ?w1 (reads ?w1 + i)" "\<not> busy ?w1 (reads ?w1 + k)"
         "w' = polled d (Suc k) ?w1"
      by blast
    have "\<forall>i<Suc k. busy w (reads w + i)"
    proof (intro allI impI)
      fix i assume "i < Suc k"
      show "busy w (reads w + i)"
      proof (cases i)
        case 0 with True show ?thesis by simp
      next
        case (Suc j)
        with \<open>i < Suc k\<close> k(1) show ?thesis
          by (auto simp: readRegister_def busy_def)
      qed
    qed
    moreover have "\<not> busy w (reads w + Suc k)"
      using k(2) by (simp add: readRegister_def busy_def)
    moreover have "w' = polled d (Suc (Suc k)) w"
      using k(3) by (simp add: polled_def readRegister_def replicate_append_same)
    ultimately show ?thesis by blast
  qed
qed

lemma begin_wait_None:
  assumes "\<forall>n\<ge>reads w. busy w n"
  shows "begin_wait d w = None"
proof (cases "begin_wait d w")
  case (Some w')
  from begin_wait_Some [OF this] obtain k where "\<not> busy w (reads w + k)" by blast
  with assms show ?thesis by simp
qed simp

section \<open>The transactions of begin\<close>

lemma readCalibrationData_wire:
  "snd (readCalibrationData d w) =
     w\<lparr>reads := reads w + 3,
       traffic := traffic w @
         [BusRead (deviceAddress d) BME280_REG_DIG_T1 24,
          BusRead (deviceAddress d) BME280_REG_DIG_H1 1,
          BusRead (deviceAddress d) BME280_REG_DIG_H2 7]\<rparr>"
  by (simp add: readCalibrationData_def readRegisters_def readRegister_def Let_def)

lemma readCalibrationData_driver:
  "deviceAddress (fst (readCalibrationData d w)) = deviceAddress d"
  "t_fine (fst (readCalibrationData d w)) = t_fine d"
  by (simp_all add: readCalibrationData_def readRegisters_def readRegister_def Let_def)

lemma ctrl_meas_config_value: "ctrl_meas_config = 0x27"
  by (simp add: ctrl_meas_config_def BME280_TEMP_OSR_def BME280_PRES_OSR_def BME280_MODE_def)

lemma begin_after_wait:
  assumes id: "device w (reads w) BME280_REG_ID = 0x60"
    and wait: "begin_wait d (reset d (snd (getChipID d w))) = Some w3"
  shows "begin_bme280 d w =
           Some (True, fst (readCalibrationData d w3),
                 writeRegister d BME280_REG_CONFIG 0x00
                   (writeRegister d BME280_REG_CTRL_MEAS 0x27
                      (writeRegister d BME280_REG_CTRL_HUM 0x01
                         (snd (readCalibrationData d w3)))))"
  using id wait
  by (simp add: begin_bme280_def getChipID_def readRegister_def reset_def Let_def split_beta
      ctrl_meas_config_value BME280_HUM_OSR_def writeRegister_def readCalibrationData_driver)

lemma begin_polls:
  assumes id: "device w (reads w) BME280_REG_ID = 0x60"
    and busy: "\<forall>i<k. busy w (Suc (reads w) + i)"
    and ready: "\<not> busy w (Suc (reads w) + k)"
  shows "\<exists>d' w'. begin_bme280 d w = Some (True, d', w')
           \<and> traffic w' = traffic w @ begin_traffic (deviceAddress d) k
           \<and> reads w' = reads w + k + 5"
proof -
  let ?w2 = "reset d (snd (getChipID d w))"
  have r: "reads ?w2 = Suc (reads w)" "device ?w2 = device w"
    by (simp_all add: reset_def getChipID_def readRegister_def writeRegister_def)
  have "begin_wait d ?w2 = Some (polled d (Suc k) ?w2)"
    by (rule begin_wait_polls) (use busy ready in \<open>simp_all add: r busy_def\<close>)
  from begin_after_wait [OF id this] show ?thesis
    by (simp add: readCalibrationData_wire polled_def writeRegister_def reset_def getChipID_def
        readRegister_def begin_traffic_def)
qed

lemma begin_True:
  assumes "begin_bme280 d w = Some (True, d', w')"
  shows "\<exists>k. traffic w' = traffic w @ begin_traffic (deviceAddress d) k"
proof -
  let ?w2 = "reset d (snd (getChipID d w))"
  have id: "device w (reads w) BME280_REG_ID = 0x60"
    using assms by (auto simp: begin_bme280_def getChipID_def readRegister_def split: if_splits)
  then obtain w3 where w3: "begin_wait d ?w2 = Some w3"
    using assms
    by (cases "begin_wait d ?w2")
       (auto simp: begin_bme280_def getChipID_def readRegister_def reset_def Let_def)
  from begin_wait_Some [OF w3] obtain k where k: "w3 = polled d (Suc k) ?w2" by blast
  from begin_after_wait [OF id w3] assms
  have "traffic w' = traffic w @ begin_traffic (deviceAddress d) k"
    by (auto simp add: k readCalibrationData_wire polled_def writeRegister_def reset_def
        getChipID_def readRegister_def begin_traffic_def)
  then show ?thesis ..
qed

lemma filter_is_write_begin_traffic:
  "filter is_write (begin_traffic a k) =
     [BusWrite a BME280_REG_RESET 0xB6, BusWrite a BME280_REG_CTRL_HUM 0x01,
      BusWrite a BME280_REG_CTRL_MEAS 0x27, BusWrite a BME280_REG_CONFIG 0x00]"
  by (simp add: begin_traffic_def)

lemma writes_to_append: "writes_to r (xs @ ys) = writes_to r xs @ writes_to r ys"
  by (induction r xs rule: writes_to.induct) simp_all

lemma writes_to_replicate_read: "writes_to r (replicate n (BusRead a r' m)) = []"
  by (induction n) simp_all

lemma writes_to_begin_traffic:
  "writes_to BME280_REG_CTRL_MEAS (begin_traffic a k) = [0x27]"
  by (simp add: begin_traffic_def writes_to_append writes_to_replicate_read)

section \<open>Worked examples\<close>

text \<open>
  The driver run on the example sensors: the datasheet's calibration set and raw values
  give 25.08 degrees, and the values below for pressure and humidity; at the freezing
  point the temperature pass leaves \<open>t_fine = 0\<close>.
\<close>

lemma sensor_regs_values:
  "sensor_regs 0xD0 = 0x60" "sensor_regs 0xF3 = 0"
  "sensor_regs 0xFA = 0x7E" "sensor_regs 0xFB = 0xED" "sensor_regs 0xFC = 0x00"
  "sensor_regs 0xF7 = 0x65" "sensor_regs 0xF8 = 0x5A" "sensor_regs 0xF9 = 0xC0"
  "sensor_regs 0xFD = 0x75" "sensor_regs 0xFE = 0x30"
  by (simp_all add: sensor_regs_def)

lemma example_driver_fields:
  "deviceAddress example_driver = 0x76" "calibData example_driver = example_calib"
  "t_fine example_driver = 0"
  by (simp_all add: example_driver_def BME280_Driver_new_def)

lemma example_compensateTemperature:
  "compensateTemperature example_driver 519888 = (2508, example_driver\<lparr>t_fine := 128422\<rparr>)"
  by (simp add: compensateTemperature_def example_driver_def BME280_Driver_new_def
      example_calib_def Let_def)

lemma freezing_compensateTemperature:
  "compensateTemperature example_driver 440064 = (0, example_driver)"
  by (simp add: compensateTemperature_def example_driver_def BME280_Driver_new_def
      example_calib_def Let_def)

lemma example_compensatePressure:
  "compensatePressure (example_driver\<lparr>t_fine := 128422\<rparr>) 415148 = Some 25767233"
  by (simp add: compensatePressure_def example_driver_def BME280_Driver_new_def
      pressure_var1_def pressure_var2_def example_calib_def div_int64_def Let_def)

lemma freezing_compensatePressure:
  "compensatePressure example_driver 413696 = Some 24847731"
  "compensatePressure example_driver 417792 = Some 24674145"
  by (simp_all add: compensatePressure_def example_driver_def BME280_Driver_new_def
      pressure_var1_def pressure_var2_def example_calib_def div_int64_def Let_def)

lemma example_compensateHumidity:
  "compensateHumidity (example_driver\<lparr>t_fine := 128422\<rparr>) 30000 = 55283"
  by (simp add: compensateHumidity_def example_driver_def BME280_Driver_new_def
      example_calib_def Let_def)

lemma freezing_compensateHumidity:
  "compensateHumidity example_driver 29952 = 54045"
  "compensateHumidity example_driver 32768 = 69076"
  by (simp_all add: compensateHumidity_def example_driver_def BME280_Driver_new_def
      example_calib_def Let_def)

lemma example_readTemperature:
  assumes "device w = (\<lambda>n. sensor_regs)"
  shows "readTemperature example_driver w =
     (2508 / 100, example_driver\<lparr>t_fine := 128422\<rparr>,
      w\<lparr>reads := Suc (reads w),
        traffic := traffic w @ [BusRead 0x76 BME280_REG_TEMP_MSB 3]\<rparr>)"
proof -
  have "push_bit 12 (promote 0x7E) OR push_bit 4 (promote 0xED) OR signed_drop_bit 4 (promote 0)
          = (519888 :: 32 word)"
    by (simp add: promote_def)
  then show ?thesis
    using assms
    by (simp add: readTemperature_def readRegisters_def Let_def upt_rec sensor_regs_values
        example_compensateTemperature example_driver_fields)
qed

lemma example_readPressure:
  assumes "device w = (\<lambda>n. sensor_regs)"
  shows "readPressure (example_driver\<lparr>t_fine := 128422\<rparr>) w =
           Some (25767233 / 100, example_driver\<lparr>t_fine := 128422\<rparr>,
                 w\<lparr>reads := Suc (reads w),
                   traffic := traffic w @ [BusRead 0x76 BME280_REG_PRESS_MSB 3]\<rparr>)"
proof -
  have "push_bit 12 (promote 0x65) OR push_bit 4 (promote 0x5A) OR signed_drop_bit 4 (promote 0xC0)
          = (415148 :: 32 word)"
    by (simp add: promote_def)
  then show ?thesis
    using assms
    by (simp add: readPressure_def readRegisters_def Let_def upt_rec sensor_regs_values
        example_compensatePressure example_driver_fields)
qed

lemma example_readHumidity:
  assumes "device w = (\<lambda>n. sensor_regs)"
  shows "readHumidity (example_driver\<lparr>t_fine := 128422\<rparr>) w =
           (55283 / 1024, example_driver\<lparr>t_fine := 128422\<rparr>,
            w\<lparr>reads := Suc (reads w),
              traffic := traffic w @ [BusRead 0x76 BME280_REG_HUM_MSB 2]\<rparr>)"
proof -
  have "push_bit 8 (promote 0x75) OR promote 0x30 = (30000 :: 32 word)"
    by (simp add: promote_def)
  then show ?thesis
    using assms
    by (simp add: readHumidity_def readRegisters_def Let_def upt_rec sensor_regs_values
        example_compensateHumidity example_driver_fields)
qed

lemma example_begin:
  "begin_bme280 example_driver example_wire =
     Some (True, example_driver,
           example_wire\<lparr>reads := 5, traffic := begin_traffic 0x76 0\<rparr>)"
  apply (subst begin_bme280_def)
  apply (simp add: getChipID_def readRegister_def example_wire_def sensor_regs_values reset_def
      writeRegister_def)
  apply (subst begin_wait.simps)
  apply (simp add: readRegister_def sensor_regs_values)
  apply (simp add: readCalibrationData_def readRegisters_def readRegister_def Let_def upt_rec
      sensor_regs_def promote_def example_driver_def BME280_Driver_new_def example_calib_def
      ctrl_meas_config_value BME280_HUM_OSR_def writeRegister_def begin_traffic_def)
  done

lemma example_calls:
  assumes "device w = (\<lambda>n. sensor_regs)"
  shows "calls [ReadTemperature, ReadPressure, ReadHumidity, GetChipID, IsMeasuring]
     (example_driver, w) =
   Some (example_driver\<lparr>t_fine := 128422\<rparr>,
         w\<lparr>reads := reads w + 5,
           traffic := traffic w @
             [BusRead 0x76 BME280_REG_TEMP_MSB 3, BusRead 0x76 BME280_REG_PRESS_MSB 3,
              BusRead 0x76 BME280_REG_HUM_MSB 2, BusRead 0x76 BME280_REG_ID 1,
              BusRead 0x76 BME280_REG_STATUS 1]\<rparr>)"
  using assms
  by (simp add: example_readTemperature example_readPressure example_readHumidity
        getChipID_def isMeasuring_def readRegister_def sensor_regs_values example_driver_fields)

lemma freezing_readTemperature:
  assumes "device w = device freezing_wire"
  shows "readTemperature example_driver w =
     (0, example_driver,
      w\<lparr>reads := Suc (reads w),
        traffic := traffic w @ [BusRead 0x76 BME280_REG_TEMP_MSB 3]\<rparr>)"
proof -
  have "push_bit 12 (promote 0x6B) OR push_bit 4 (promote 0x70) OR signed_drop_bit 4 (promote 0)
          = (440064 :: 32 word)"
    by (simp add: promote_def)
  then show ?thesis
    using assms
    by (simp add: readTemperature_def readRegisters_def Let_def upt_rec freezing_wire_def
        freezing_compensateTemperature example_driver_fields)
qed

lemma freezing_readPressure:
  assumes "device w = device freezing_wire"
  shows "map_option fst (readPressure example_driver w)
           = Some (if reads w = 0 then 24847731 / 100 else 24674145 / 100)"
proof -
  have "push_bit 12 (promote 0x65) OR push_bit 4 (promote 0) OR signed_drop_bit 4 (promote 0)
          = (413696 :: 32 word)"
       "push_bit 12 (promote 0x66) OR push_bit 4 (promote 0) OR signed_drop_bit 4 (promote 0)
          = (417792 :: 32 word)"
    by (simp_all add: promote_def)
  then show ?thesis
    using assms
    by (simp add: readPressure_def freezing_readTemperature example_driver_fields
        readRegisters_def Let_def upt_rec freezing_wire_def freezing_compensatePressure)
qed

lemma freezing_readHumidity:
  assumes "device w = device freezing_wire"
  shows "fst (readHumidity example_driver w)
           = (if reads w = 0 then 54045 / 1024 else 69076 / 1024)"
proof -
  have "push_bit 8 (promote 0x75) OR promote 0 = (29952 :: 32 word)"
       "push_bit 8 (promote 0x80) OR promote 0 = (32768 :: 32 word)"
    by (simp_all add: promote_def)
  then show ?thesis
    using assms
    by (simp add: readHumidity_def freezing_readTemperature example_driver_fields
        readRegisters_def Let_def upt_rec freezing_wire_def freezing_compensateHumidity)
qed

section \<open>Identity check\<close>

text \<open>
  C4. Whatever byte other than 0x60 the identity register returns, \<open>begin\<close> returns
  false, leaves the driver as it was, and the only transaction it has put on the bus is
  the one-byte read of the identity register: no write of any kind follows.
\<close>

theorem begin_wrong_id:
  assumes "device w (reads w) BME280_REG_ID \<noteq> 0x60"
  shows "begin_bme280 d w =
           Some (False, d,
                 w\<lparr>reads := Suc (reads w),
                   traffic := traffic w @ [BusRead (deviceAddress d) BME280_REG_ID 1]\<rparr>)"
  using assms by (simp add: begin_bme280_def getChipID_def readRegister_def)

theorem begin_wrong_id_witness:
  "device absent_wire (reads absent_wire) BME280_REG_ID \<noteq> 0x60
   \<and> begin_bme280 example_driver absent_wire =
       Some (False, example_driver,
             absent_wire\<lparr>reads := 1, traffic := [BusRead 0x76 BME280_REG_ID 1]\<rparr>)"
  using begin_wrong_id [of absent_wire example_driver]
  by (simp add: absent_wire_def example_driver_def BME280_Driver_new_def)

section \<open>Order and content of the configuration writes\<close>

text \<open>
  C6. In every successful run of \<open>begin\<close> the writes it puts on the bus are, in this
  order and with nothing else written: the soft reset, the humidity-control register, the
  measurement-control register, the config register. So the humidity-control write comes
  strictly before the measurement-control write, that one strictly before the config
  write, and the measurement-control register is written only after the humidity-control
  register has been written in the same call.
\<close>

theorem begin_write_order:
  assumes "begin_bme280 d w = Some (True, d', w')"
  shows "filter is_write (new_traffic w w') =
           [BusWrite (deviceAddress d) BME280_REG_RESET 0xB6,
            BusWrite (deviceAddress d) BME280_REG_CTRL_HUM 0x01,
            BusWrite (deviceAddress d) BME280_REG_CTRL_MEAS 0x27,
            BusWrite (deviceAddress d) BME280_REG_CONFIG 0x00]"
proof -
  from begin_True [OF assms] obtain k
    where "traffic w' = traffic w @ begin_traffic (deviceAddress d) k" ..
  then show ?thesis
    by (simp add: new_traffic_def filter_is_write_begin_traffic)
qed

theorem begin_write_order_witness:
  "\<exists>d' w'. begin_bme280 example_driver ready_wire = Some (True, d', w')
     \<and> filter is_write (new_traffic ready_wire w') =
         [BusWrite 0x76 BME280_REG_RESET 0xB6, BusWrite 0x76 BME280_REG_CTRL_HUM 0x01,
          BusWrite 0x76 BME280_REG_CTRL_MEAS 0x27, BusWrite 0x76 BME280_REG_CONFIG 0x00]"
proof -
  obtain d' w' where b: "begin_bme280 example_driver ready_wire = Some (True, d', w')"
    using begin_polls [of ready_wire 0 example_driver]
    by (auto simp add: ready_wire_def busy_def)
  from begin_write_order [OF b] b show ?thesis
    by (simp add: example_driver_def BME280_Driver_new_def)
qed

text \<open>
  C7. The byte \<open>begin\<close> writes to the measurement-control register is
  \<open>(BME280_TEMP_OSR << 5) | (BME280_PRES_OSR << 2) | BME280_MODE\<close>: its bits 7 to 5 are
  the temperature oversampling, its bits 4 to 2 the pressure oversampling, its bits 1 to 0
  the power mode. With the constants of the header it is 0x27, and a successful \<open>begin\<close>
  writes to that register this byte, once.
\<close>

theorem begin_ctrl_meas_byte:
  assumes "begin_bme280 d w = Some (True, d', w')"
  shows "writes_to BME280_REG_CTRL_MEAS (new_traffic w w') = [ctrl_meas_config]
         \<and> ctrl_meas_config
             = ucast (push_bit 5 BME280_TEMP_OSR OR push_bit 2 BME280_PRES_OSR OR BME280_MODE)
         \<and> drop_bit 5 ctrl_meas_config = ucast BME280_TEMP_OSR
         \<and> take_bit 3 (drop_bit 2 ctrl_meas_config) = ucast BME280_PRES_OSR
         \<and> take_bit 2 ctrl_meas_config = ucast BME280_MODE
         \<and> ctrl_meas_config = 0x27"
proof -
  from begin_True [OF assms] obtain k
    where "traffic w' = traffic w @ begin_traffic (deviceAddress d) k" ..
  then have "writes_to BME280_REG_CTRL_MEAS (new_traffic w w') = [ctrl_meas_config]"
    by (simp add: new_traffic_def writes_to_begin_traffic ctrl_meas_config_value)
  moreover have "ctrl_meas_config
      = ucast (push_bit 5 BME280_TEMP_OSR OR push_bit 2 BME280_PRES_OSR OR BME280_MODE)"
    by (simp add: ctrl_meas_config_def)
  moreover have "drop_bit 5 ctrl_meas_config = ucast BME280_TEMP_OSR"
    by (simp add: ctrl_meas_config_value BME280_TEMP_OSR_def drop_bit_eq_div)
  moreover have "take_bit 3 (drop_bit 2 ctrl_meas_config) = ucast BME280_PRES_OSR"
    by (simp add: ctrl_meas_config_value BME280_PRES_OSR_def drop_bit_eq_div take_bit_eq_mod)
  moreover have "take_bit 2 ctrl_meas_config = ucast BME280_MODE"
    by (simp add: ctrl_meas_config_value BME280_MODE_def take_bit_eq_mod)
  ultimately show ?thesis
    by (simp add: ctrl_meas_config_value)
qed

theorem begin_ctrl_meas_byte_witness:
  "\<exists>d' w'. begin_bme280 example_driver ready_wire = Some (True, d', w')
     \<and> writes_to BME280_REG_CTRL_MEAS (new_traffic ready_wire w') = [0x27]"
proof -
  obtain d' w' where b: "begin_bme280 example_driver ready_wire = Some (True, d', w')"
    using begin_polls [of ready_wire 0 example_driver]
    by (auto simp add: ready_wire_def busy_def)
  from begin_ctrl_meas_byte [OF b] b show ?thesis
    by auto
qed

section \<open>The calibration-copy wait\<close>

text \<open>
  C9. The wait for the calibration copy has no bound. When the identity check passes and
  every later read of the status register shows bit 0 set, \<open>begin\<close> never returns. And
  no number of polls makes it give up: for every \<open>k\<close>, if the first \<open>k\<close> reads of the
  status register show the bit set and the next one shows it clear, \<open>begin\<close> succeeds,
  having read \<open>k + 5\<close> times in all (identity, \<open>k + 1\<close> status polls, three calibration
  reads). There is no timeout failure.
\<close>

theorem begin_wait_unbounded:
  assumes "device w (reads w) BME280_REG_ID = 0x60"
  shows "((\<forall>n>reads w. busy w n) \<longrightarrow> begin_bme280 d w = None)
         \<and> (\<forall>k. (\<forall>i<k. busy w (Suc (reads w) + i)) \<and> \<not> busy w (Suc (reads w) + k)
                \<longrightarrow> (\<exists>d' w'. begin_bme280 d w = Some (True, d', w')
                             \<and> reads w' = reads w + k + 5))"
proof (intro conjI impI allI)
  assume stuck: "\<forall>n>reads w. busy w n"
  let ?w2 = "reset d (snd (getChipID d w))"
  have "\<forall>n\<ge>reads ?w2. busy ?w2 n"
    using stuck by (simp add: reset_def getChipID_def readRegister_def writeRegister_def busy_def)
  then have "begin_wait d ?w2 = None"
    by (rule begin_wait_None)
  with assms show "begin_bme280 d w = None"
    by (simp add: begin_bme280_def getChipID_def readRegister_def reset_def Let_def)
next
  fix k
  assume "(\<forall>i<k. busy w (Suc (reads w) + i)) \<and> \<not> busy w (Suc (reads w) + k)"
  with begin_polls [OF assms, of k d]
  show "\<exists>d' w'. begin_bme280 d w = Some (True, d', w') \<and> reads w' = reads w + k + 5"
    by blast
qed

theorem begin_wait_unbounded_witness:
  "device stuck_wire (reads stuck_wire) BME280_REG_ID = 0x60
   \<and> busy stuck_wire 1 \<and> busy stuck_wire 1000
   \<and> begin_bme280 example_driver stuck_wire = None
   \<and> (\<exists>d' w'. begin_bme280 example_driver slow_wire = Some (True, d', w') \<and> reads w' = 8)"
proof -
  have "device stuck_wire (reads stuck_wire) BME280_REG_ID = 0x60"
    by (simp add: stuck_wire_def)
  moreover have s: "\<forall>n>reads stuck_wire. busy stuck_wire n"
    by (simp add: stuck_wire_def busy_def)
  moreover have "busy stuck_wire 1" "busy stuck_wire 1000"
    by (simp_all add: stuck_wire_def busy_def)
  moreover have "begin_bme280 example_driver stuck_wire = None"
    using begin_wait_unbounded [of stuck_wire example_driver] s
    by (simp add: stuck_wire_def)
  moreover have "\<exists>d' w'. begin_bme280 example_driver slow_wire = Some (True, d', w')
                   \<and> reads w' = 8"
  proof -
    have "device slow_wire (reads slow_wire) BME280_REG_ID = 0x60"
      by (simp add: slow_wire_def)
    from begin_wait_unbounded [OF this, of example_driver, THEN conjunct2, rule_format, of 3]
    show ?thesis
      by (simp add: slow_wire_def busy_def)
  qed
  ultimately show ?thesis by blast
qed

section \<open>Decoding of the nibble-packed humidity coefficients\<close>

text \<open>
  C10. Whatever bytes the device returns, the coefficients \<open>dig_H4\<close> and \<open>dig_H5\<close>
  that \<open>readCalibrationData\<close> stores are, read as signed 16-bit values, between 0
  and 4095: the twelve bits are assembled from unsigned bytes and never sign-extended.
\<close>

theorem dig_H4_H5_range:
  "sint (dig_H4 (calibData (fst (readCalibrationData d w)))) \<in> {0..4095}
   \<and> sint (dig_H5 (calibData (fst (readCalibrationData d w)))) \<in> {0..4095}"
proof -
  have h4: "take_bit 12 (push_bit 4 (promote b3) OR (promote b4 AND 0x0F))
              = push_bit 4 (promote b3) OR (promote b4 AND 0x0F)" for b3 b4
    by (rule bit_word_eqI)
       (auto simp add: promote_def bit_simps bit_15_iff dest: bit_imp_le_length)
  have h5: "take_bit 12 (push_bit 4 (promote b5) OR signed_drop_bit 4 (promote b4))
              = push_bit 4 (promote b5) OR signed_drop_bit 4 (promote b4)" for b4 b5
    by (rule bit_word_eqI)
       (auto simp add: promote_def bit_simps dest: bit_imp_le_length)
  show ?thesis
    unfolding readCalibrationData_def Let_def split_beta
    using small_sint16 [OF h4] small_sint16 [OF h5]
    by simp
qed

section \<open>Range of the humidity reading\<close>

lemma clamp_range:
  fixes v :: "32 word"
  assumes "0 \<le> sint v" "sint v \<le> 419430400"
  shows "unat (signed_drop_bit 12 v) \<le> 102400"
proof -
  have s: "sint (signed_drop_bit 12 v) = sint v div 2 ^ 12"
    by (simp add: sint_signed_drop_bit_eq drop_bit_eq_div)
  have "0 \<le> sint (signed_drop_bit 12 v)" "sint (signed_drop_bit 12 v) \<le> 102400"
    using assms unfolding s by simp_all
  then show ?thesis
    using nonneg_sint_unat [of "signed_drop_bit 12 v"] by linarith
qed

lemma compensateHumidity_le: "unat (compensateHumidity d adcHum) \<le> 102400"
  unfolding compensateHumidity_def Let_def
  by (rule clamp_range) (simp_all split: if_splits)

text \<open>
  C2. For every calibration set, every \<open>t_fine\<close> and every raw humidity value, the
  value \<open>readHumidity\<close> returns lies between 0 and 100: \<open>compensateHumidity\<close> clamps
  its intermediate value to [0, 419430400], so what it returns is at most 102400, and
  that divided by 1024 is at most 100. (The quotient is exact in single precision:
  the dividend is below \<open>2^24\<close> and the divisor a power of two.)
\<close>

theorem readHumidity_range:
  "0 \<le> fst (readHumidity d w) \<and> fst (readHumidity d w) \<le> 100"
proof -
  obtain d1 adcHum
    where r: "fst (readHumidity d w) = real (unat (compensateHumidity d1 adcHum)) / 1024"
    by (simp add: readHumidity_def Let_def split_beta)
  have "real (unat (compensateHumidity d1 adcHum)) \<le> 102400"
    using compensateHumidity_le [of d1 adcHum] by linarith
  moreover have "0 \<le> real (unat (compensateHumidity d1 adcHum))"
    by (rule of_nat_0_le_iff)
  ultimately show ?thesis unfolding r by simp
qed

section \<open>Temperature compensation\<close>

text \<open>
  C5. For every calibration set and every three data bytes, \<open>readTemperature\<close> assembles
  the 20-bit raw value \<open>msb * 4096 + lsb * 16 + xlsb div 16\<close>, stores in \<open>t_fine\<close> the sum
  \<open>var1 + var2\<close> of the two terms of the datasheet formula, and returns
  \<open>(t_fine * 5 + 128) >> 8\<close>, the temperature in hundredths of a degree, divided by 100.
  The 32-bit arithmetic of the source agrees with the integer formula wrapped to 32 bits.
\<close>

theorem readTemperature_datasheet:
  fixes d :: BME280_Driver and w :: TwoWire
  defines "adc_T \<equiv> raw20 (device w (reads w) 0xFA) (device w (reads w) 0xFB)
                         (device w (reads w) 0xFC)"
  defines "tf \<equiv> datasheet_t_fine (uint (dig_T1 (calibData d))) (sint (dig_T2 (calibData d)))
                   (sint (dig_T3 (calibData d))) adc_T"
  shows "readTemperature d w =
           (real_of_int (datasheet_T tf) / 100,
            d\<lparr>t_fine := word_of_int tf\<rparr>,
            w\<lparr>reads := Suc (reads w),
              traffic := traffic w @ [BusRead (deviceAddress d) BME280_REG_TEMP_MSB 3]\<rparr>)
         \<and> sint (t_fine (fst (snd (readTemperature d w)))) = tf
         \<and> 0 \<le> adc_T \<and> adc_T < 2 ^ 20"
proof -
  let ?m = "device w (reads w) 0xFA" and ?l = "device w (reads w) 0xFB"
    and ?x = "device w (reads w) 0xFC"
  let ?adc = "push_bit 12 (promote ?m) OR push_bit 4 (promote ?l)
              OR signed_drop_bit 4 (promote ?x)"
  have buf: "fst (readRegisters d BME280_REG_TEMP_MSB 3 w) = [?m, ?l, ?x]"
    by (simp add: readRegisters_def upt_rec)
  have s: "sint ?adc = adc_T"
    unfolding adc_T_def by (rule assemble_sint)
  have "0 \<le> sint ?adc" "sint ?adc < 2 ^ 20"
    unfolding s adc_T_def by (rule raw20_range)+
  note ct = compensateTemperature_datasheet [OF this, of d, unfolded s, folded tf_def]
  have c: "compensateTemperature d ?adc
             = (word_of_int (datasheet_T tf), d\<lparr>t_fine := word_of_int tf\<rparr>)"
    and t: "sint (fst (compensateTemperature d ?adc)) = datasheet_T tf"
    and f: "sint (t_fine (snd (compensateTemperature d ?adc))) = tf"
    using ct by blast+
  have r: "readTemperature d w =
           (real_of_int (sint (fst (compensateTemperature d ?adc))) / 100,
            snd (compensateTemperature d ?adc),
            snd (readRegisters d BME280_REG_TEMP_MSB 3 w))"
    by (simp add: readTemperature_def Let_def split_beta buf)
  show ?thesis
    unfolding r t
    using f raw20_range [of ?m ?l ?x]
    by (simp add: c readRegisters_def adc_T_def)
qed

section \<open>Calibration data after initialisation\<close>

lemma compensateTemperature_keeps:
  "calibData (snd (compensateTemperature d a)) = calibData d"
  "deviceAddress (snd (compensateTemperature d a)) = deviceAddress d"
  by (simp_all add: compensateTemperature_def Let_def)

lemma readTemperature_keeps:
  "calibData (fst (snd (readTemperature d w))) = calibData d"
  "deviceAddress (fst (snd (readTemperature d w))) = deviceAddress d"
  by (simp_all add: readTemperature_def Let_def split_beta compensateTemperature_keeps)

lemma readHumidity_keeps:
  "calibData (fst (snd (readHumidity d w))) = calibData d"
  "deviceAddress (fst (snd (readHumidity d w))) = deviceAddress d"
  by (simp_all add: readHumidity_def Let_def split_beta readTemperature_keeps)

lemma readPressure_keeps:
  assumes "readPressure d w = Some (p, d', w')"
  shows "calibData d' = calibData d" "deviceAddress d' = deviceAddress d"
  using assms
  by (auto simp add: readPressure_def Let_def split_beta readTemperature_keeps
      split: option.splits if_splits)

lemma call_keeps:
  assumes "call c (d, w) = Some (d', w')"
  shows "calibData d' = calibData d \<and> deviceAddress d' = deviceAddress d"
proof (cases c)
  case ReadTemperature
  with assms show ?thesis
    using readTemperature_keeps [of d w] by (cases "readTemperature d w") auto
next
  case ReadPressure
  with assms show ?thesis
    by (auto dest: readPressure_keeps)
next
  case ReadHumidity
  with assms show ?thesis
    using readHumidity_keeps [of d w] by (cases "readHumidity d w") auto
qed (use assms in auto)

lemma calls_keep:
  "calls cs (d, w) = Some (d', w') \<Longrightarrow>
   calibData d' = calibData d \<and> deviceAddress d' = deviceAddress d"
proof (induction cs arbitrary: d w)
  case Nil
  then show ?case by simp
next
  case (Cons c cs)
  then obtain d1 w1 where c: "call c (d, w) = Some (d1, w1)"
    and cs: "calls cs (d1, w1) = Some (d', w')"
    by (cases "call c (d, w)") auto
  from call_keeps [OF c] Cons.IH [OF cs] show ?case by simp
qed

text \<open>
  C8. After a successful \<open>begin\<close>, no sequence of \<open>readTemperature\<close>, \<open>readPressure\<close>,
  \<open>readHumidity\<close>, \<open>getChipID\<close> and \<open>isMeasuring\<close> calls changes the calibration data
  (nor the device address): of the fields of the driver only \<open>t_fine\<close> can change.
\<close>

theorem calibData_immutable:
  assumes "begin_bme280 d0 w0 = Some (True, d, w)"
    and "calls cs (d, w) = Some (d', w')"
  shows "calibData d' = calibData d \<and> deviceAddress d' = deviceAddress d"
  using assms(2) by (rule calls_keep)

theorem calibData_immutable_witness:
  "\<exists>d w d' w'. begin_bme280 example_driver example_wire = Some (True, d, w)
     \<and> calls [ReadTemperature, ReadPressure, ReadHumidity, GetChipID, IsMeasuring] (d, w)
         = Some (d', w')
     \<and> calibData d' = calibData d \<and> deviceAddress d' = deviceAddress d
     \<and> t_fine d = 0 \<and> t_fine d' = 128422"
proof -
  let ?w = "example_wire\<lparr>reads := 5, traffic := begin_traffic 0x76 0\<rparr>"
  have "device ?w = (\<lambda>n. sensor_regs)" by (simp add: example_wire_def)
  note c = example_calls [OF this]
  from calibData_immutable [OF example_begin c] example_begin c show ?thesis
    by (simp add: example_driver_fields)
qed

section \<open>The zero divisor of the pressure formula\<close>

text \<open>
  C1. When the divisor term \<open>var1\<close> of the pressure formula is zero,
  \<open>compensatePressure\<close> returns 0 for every raw value, and it does so without dividing:
  the result is \<open>Some 0\<close>, not the undefined division. \<open>readPressure\<close> then returns
  0.0; the driver state that counts is the one the formula is applied to, that is after
  the temperature pass \<open>readPressure\<close> makes first when \<open>t_fine\<close> is 0.
\<close>

theorem pressure_zero_divisor:
  "(pressure_var1 d = 0 \<longrightarrow> compensatePressure d adcPres = Some 0)
   \<and> (pressure_var1 (fst (if t_fine d = 0 then snd (readTemperature d w) else (d, w))) = 0
        \<longrightarrow> map_option fst (readPressure d w) = Some 0)"
  by (simp add: compensatePressure_def readPressure_def Let_def split_beta)

theorem pressure_zero_divisor_witness:
  "pressure_var1 degenerate_driver = 0
   \<and> compensatePressure degenerate_driver 415148 = Some 0
   \<and> map_option fst (readPressure degenerate_driver example_wire) = Some 0"
proof -
  have v: "pressure_var1 degenerate_driver = 0"
    by (simp add: pressure_var1_def degenerate_driver_def Let_def)
  have t: "t_fine degenerate_driver \<noteq> 0"
    by (simp add: degenerate_driver_def)
  from pressure_zero_divisor [of degenerate_driver 415148 example_wire] v t
  show ?thesis by simp
qed

section \<open>Reads before any temperature read\<close>

lemma burst_3: "burst w n reg 3 = [device w n reg, device w n (reg + 1), device w n (reg + 2)]"
  by (simp add: burst_def upt_rec)

lemma burst_2: "burst w n reg 2 = [device w n reg, device w n (reg + 1)]"
  by (simp add: burst_def upt_rec)

lemma readRegisters_burst:
  "readRegisters d reg len w =
     (burst w (reads w) reg len,
      w\<lparr>reads := Suc (reads w), traffic := traffic w @ [BusRead (deviceAddress d) reg len]\<rparr>)"
  by (simp add: readRegisters_def burst_def)

lemma assemble_word20:
  "push_bit 12 (promote m) OR push_bit 4 (promote l) OR signed_drop_bit 4 (promote x)
     = (word_of_int (raw20 m l x) :: 32 word)"
  using word_of_sint [of "push_bit 12 (promote m) OR push_bit 4 (promote l)
                           OR signed_drop_bit 4 (promote x) :: 32 word"]
  by (simp only: assemble_sint)

lemma assemble_word16:
  "push_bit 8 (promote m) OR promote l = (word_of_int (raw16 m l) :: 32 word)"
proof -
  have t: "take_bit 8 (uint l) = uint l"
    using uint8_bound [of l] by (simp add: take_bit_int_eq_self)
  have "uint (push_bit 8 (promote m) OR promote l) = push_bit 8 (uint m) OR uint l"
    by (simp only: uint_or uint_push_promote uint_promote) 
  also have "\<dots> = concat_bit 8 (uint l) (uint m)"
    by (simp add: concat_bit_def t or.commute)
  also have "\<dots> = raw16 m l"
    by (simp add: concat_bit_eq t push_bit_eq_mult raw16_def)
  finally have "uint (push_bit 8 (promote m) OR promote l) = raw16 m l" .
  then show ?thesis
    by (metis word_of_int_uint)
qed

lemma compensateTemperature_again:
  "snd (compensateTemperature (snd (compensateTemperature d a)) a)
     = snd (compensateTemperature d a)"
  by (simp add: compensateTemperature_def Let_def)

lemma readTemperature_burst:
  "snd (readTemperature d w) =
     (snd (compensateTemperature d
        (push_bit 12 (promote (burst w (reads w) 0xFA 3 ! 0))
         OR push_bit 4 (promote (burst w (reads w) 0xFA 3 ! 1))
         OR signed_drop_bit 4 (promote (burst w (reads w) 0xFA 3 ! 2)))),
      w\<lparr>reads := Suc (reads w),
        traffic := traffic w @ [BusRead (deviceAddress d) BME280_REG_TEMP_MSB 3]\<rparr>)"
  by (simp add: readTemperature_def readRegisters_burst Let_def split_beta)

lemma readPressure_burst:
  "readPressure d w =
     (let (d1, w1) = (if t_fine d = 0 then snd (readTemperature d w) else (d, w))
      in map_option
           (\<lambda>p. (real (unat p) / 100, d1,
                 w1\<lparr>reads := Suc (reads w1),
                    traffic := traffic w1 @ [BusRead (deviceAddress d1) BME280_REG_PRESS_MSB 3]\<rparr>))
           (compensatePressure d1
              (push_bit 12 (promote (burst w1 (reads w1) 0xF7 3 ! 0))
               OR push_bit 4 (promote (burst w1 (reads w1) 0xF7 3 ! 1))
               OR signed_drop_bit 4 (promote (burst w1 (reads w1) 0xF7 3 ! 2)))))"
  by (simp add: readPressure_def readRegisters_burst Let_def split_beta split: option.split)

lemma readHumidity_burst:
  "readHumidity d w =
     (let (d1, w1) = (if t_fine d = 0 then snd (readTemperature d w) else (d, w))
      in (real (unat (compensateHumidity d1
                 (push_bit 8 (promote (burst w1 (reads w1) 0xFD 2 ! 0))
                  OR promote (burst w1 (reads w1) 0xFD 2 ! 1)))) / 1024,
          d1,
          w1\<lparr>reads := Suc (reads w1),
             traffic := traffic w1 @ [BusRead (deviceAddress d1) BME280_REG_HUM_MSB 2]\<rparr>))"
  by (simp add: readHumidity_def readRegisters_burst Let_def split_beta)


lemma burst_device: "device w' = device w \<Longrightarrow> burst w' n reg len = burst w n reg len"
  by (simp add: burst_def)

lemma burst_update:
  "burst (w\<lparr>reads := r\<rparr>) = burst w" "burst (w\<lparr>traffic := tr\<rparr>) = burst w"
  by (simp_all add: burst_def fun_eq_iff)

text \<open>
  C3, as the code has it. When \<open>readPressure\<close> or \<open>readHumidity\<close> is called with
  \<open>t_fine = 0\<close>, the driver first makes one full temperature read, which sets
  \<open>t_fine\<close>, and then applies the pressure or humidity formula to the raw value of the
  next transaction: the value returned, the driver and the bus are the ones written out
  below, with \<open>d1\<close> the driver as \<open>readTemperature\<close> leaves it. The result is the one of
  calling \<open>readTemperature\<close> and then the same read, bus included, when that temperature
  pass gives a \<open>t_fine\<close> other than 0. It is so too, for the value returned and the
  driver, when the temperature registers read the same in the next transaction and the
  pressure or humidity registers the same in the one after.
\<close>

theorem temperature_pass_first:
  assumes z: "t_fine d = 0"
    and rt: "readTemperature d w = (t, d1, w1)"
  shows "readPressure d w =
           map_option
             (\<lambda>p. (real (unat p) / 100, d1,
                   w\<lparr>reads := reads w + 2,
                     traffic := traffic w @ [BusRead (deviceAddress d) BME280_REG_TEMP_MSB 3,
                                             BusRead (deviceAddress d) BME280_REG_PRESS_MSB 3]\<rparr>))
             (compensatePressure d1
                (word_of_int (raw20 (device w (Suc (reads w)) 0xF7) (device w (Suc (reads w)) 0xF8)
                                    (device w (Suc (reads w)) 0xF9))))
         \<and> readHumidity d w =
             (real (unat (compensateHumidity d1
                (word_of_int (raw16 (device w (Suc (reads w)) 0xFD)
                                    (device w (Suc (reads w)) 0xFE))))) / 1024,
              d1,
              w\<lparr>reads := reads w + 2,
                traffic := traffic w @ [BusRead (deviceAddress d) BME280_REG_TEMP_MSB 3,
                                        BusRead (deviceAddress d) BME280_REG_HUM_MSB 2]\<rparr>)
         \<and> (t_fine d1 \<noteq> 0 \<longrightarrow>
               readPressure d w = readPressure d1 w1 \<and> readHumidity d w = readHumidity d1 w1)
         \<and> (burst w (Suc (reads w)) BME280_REG_TEMP_MSB 3 = burst w (reads w) BME280_REG_TEMP_MSB 3
              \<and> burst w (Suc (Suc (reads w))) BME280_REG_PRESS_MSB 3
                  = burst w (Suc (reads w)) BME280_REG_PRESS_MSB 3 \<longrightarrow>
               map_option (\<lambda>r. (fst r, fst (snd r))) (readPressure d w)
                 = map_option (\<lambda>r. (fst r, fst (snd r))) (readPressure d1 w1))
         \<and> (burst w (Suc (reads w)) BME280_REG_TEMP_MSB 3 = burst w (reads w) BME280_REG_TEMP_MSB 3
              \<and> burst w (Suc (Suc (reads w))) BME280_REG_HUM_MSB 2
                  = burst w (Suc (reads w)) BME280_REG_HUM_MSB 2 \<longrightarrow>
               fst (readHumidity d w) = fst (readHumidity d1 w1)
               \<and> fst (snd (readHumidity d w)) = fst (snd (readHumidity d1 w1)))"
proof -
  let ?adcT = "\<lambda>bs :: uint8_t list. push_bit 12 (promote (bs ! 0)) OR push_bit 4 (promote (bs ! 1))
                 OR signed_drop_bit 4 (promote (bs ! 2)) :: int32_t"
  let ?adcH = "\<lambda>bs :: uint8_t list. push_bit 8 (promote (bs ! 0)) OR promote (bs ! 1) :: int32_t"
  let ?n = "reads w"
  have s: "snd (readTemperature d w) = (d1, w1)"
    using rt by simp
  have d1: "d1 = snd (compensateTemperature d (?adcT (burst w ?n BME280_REG_TEMP_MSB 3)))"
    and w1: "w1 = w\<lparr>reads := Suc ?n,
                     traffic := traffic w @ [BusRead (deviceAddress d) BME280_REG_TEMP_MSB 3]\<rparr>"
    using s by (simp_all add: readTemperature_burst)
  have a1: "deviceAddress d1 = deviceAddress d"
    using readTemperature_keeps(2) [of d w] s by simp
  have dev1: "device w1 = device w" and r1: "reads w1 = Suc ?n"
    by (simp_all add: w1)
  have P: "readPressure d w =
             map_option
               (\<lambda>p. (real (unat p) / 100, d1,
                     w\<lparr>reads := ?n + 2,
                       traffic := traffic w @ [BusRead (deviceAddress d) BME280_REG_TEMP_MSB 3,
                                               BusRead (deviceAddress d) BME280_REG_PRESS_MSB 3]\<rparr>))
               (compensatePressure d1 (?adcT (burst w (Suc ?n) BME280_REG_PRESS_MSB 3)))"
    by (simp add: readPressure_burst z s a1 r1 burst_device [OF dev1]) (simp add: w1)
  have H: "readHumidity d w =
             (real (unat (compensateHumidity d1 (?adcH (burst w (Suc ?n) BME280_REG_HUM_MSB 2))))
                / 1024,
              d1,
              w\<lparr>reads := ?n + 2,
                traffic := traffic w @ [BusRead (deviceAddress d) BME280_REG_TEMP_MSB 3,
                                        BusRead (deviceAddress d) BME280_REG_HUM_MSB 2]\<rparr>)"
    by (simp add: readHumidity_burst z s a1 r1 burst_device [OF dev1]) (simp add: w1)
  have P': "readPressure d w =
           map_option
             (\<lambda>p. (real (unat p) / 100, d1,
                   w\<lparr>reads := reads w + 2,
                     traffic := traffic w @ [BusRead (deviceAddress d) BME280_REG_TEMP_MSB 3,
                                             BusRead (deviceAddress d) BME280_REG_PRESS_MSB 3]\<rparr>))
             (compensatePressure d1
                (word_of_int (raw20 (device w (Suc (reads w)) 0xF7) (device w (Suc (reads w)) 0xF8)
                                    (device w (Suc (reads w)) 0xF9))))"
    unfolding P by (simp add: burst_3 assemble_word20)
  have H': "readHumidity d w =
             (real (unat (compensateHumidity d1
                (word_of_int (raw16 (device w (Suc (reads w)) 0xFD)
                                    (device w (Suc (reads w)) 0xFE))))) / 1024,
              d1,
              w\<lparr>reads := reads w + 2,
                traffic := traffic w @ [BusRead (deviceAddress d) BME280_REG_TEMP_MSB 3,
                                        BusRead (deviceAddress d) BME280_REG_HUM_MSB 2]\<rparr>)"
    unfolding H by (simp add: burst_2 assemble_word16)
  have B: "readPressure d w = readPressure d1 w1 \<and> readHumidity d w = readHumidity d1 w1"
    if "t_fine d1 \<noteq> 0"
    using that z s by (simp add: readPressure_def readHumidity_def)
  have again: "snd (readTemperature d1 w1) =
                 (d1, w1\<lparr>reads := Suc (Suc ?n),
                        traffic := traffic w1 @ [BusRead (deviceAddress d) BME280_REG_TEMP_MSB 3]\<rparr>)"
    if "burst w (Suc ?n) BME280_REG_TEMP_MSB 3 = burst w ?n BME280_REG_TEMP_MSB 3"
  proof -
    have "snd (compensateTemperature d1 (?adcT (burst w ?n BME280_REG_TEMP_MSB 3))) = d1"
      using compensateTemperature_again [of d "?adcT (burst w ?n BME280_REG_TEMP_MSB 3)"]
      by (simp only: d1 [symmetric])
    then show ?thesis
      by (simp add: readTemperature_burst r1 burst_device [OF dev1] that a1)
  qed
  have CP: "map_option (\<lambda>r. (fst r, fst (snd r))) (readPressure d w)
              = map_option (\<lambda>r. (fst r, fst (snd r))) (readPressure d1 w1)"
    if t: "burst w (Suc ?n) BME280_REG_TEMP_MSB 3 = burst w ?n BME280_REG_TEMP_MSB 3"
      and p: "burst w (Suc (Suc ?n)) BME280_REG_PRESS_MSB 3 = burst w (Suc ?n) BME280_REG_PRESS_MSB 3"
  proof (cases "t_fine d1 = 0")
    case False
    with B show ?thesis by simp
  next
    case True
    have "readPressure d1 w1 =
            map_option
              (\<lambda>p. (real (unat p) / 100, d1,
                    w1\<lparr>reads := Suc (Suc (Suc ?n)),
                       traffic := traffic w1 @ [BusRead (deviceAddress d) BME280_REG_TEMP_MSB 3,
                                                BusRead (deviceAddress d) BME280_REG_PRESS_MSB 3]\<rparr>))
              (compensatePressure d1 (?adcT (burst w (Suc ?n) BME280_REG_PRESS_MSB 3)))"
      by (simp add: readPressure_burst True again [OF t] a1 burst_update burst_device [OF dev1] p)
    then show ?thesis
      unfolding P by (simp add: option.map_comp comp_def)
  qed
  have CH: "fst (readHumidity d w) = fst (readHumidity d1 w1)
            \<and> fst (snd (readHumidity d w)) = fst (snd (readHumidity d1 w1))"
    if t: "burst w (Suc ?n) BME280_REG_TEMP_MSB 3 = burst w ?n BME280_REG_TEMP_MSB 3"
      and h: "burst w (Suc (Suc ?n)) BME280_REG_HUM_MSB 2 = burst w (Suc ?n) BME280_REG_HUM_MSB 2"
  proof (cases "t_fine d1 = 0")
    case False
    with B show ?thesis by simp
  next
    case True
    have "readHumidity d1 w1 =
            (real (unat (compensateHumidity d1 (?adcH (burst w (Suc ?n) BME280_REG_HUM_MSB 2))))
               / 1024,
             d1,
             w1\<lparr>reads := Suc (Suc (Suc ?n)),
                traffic := traffic w1 @ [BusRead (deviceAddress d) BME280_REG_TEMP_MSB 3,
                                         BusRead (deviceAddress d) BME280_REG_HUM_MSB 2]\<rparr>)"
      by (simp add: readHumidity_burst True again [OF t] a1 burst_update burst_device [OF dev1] h)
    then show ?thesis
      unfolding H by simp
  qed
  from P' H' B CP CH show ?thesis
    by blast
qed


lemma still_readTemperature:
  "readTemperature example_driver still_wire =
     (0, example_driver,
      still_wire\<lparr>reads := 1, traffic := [BusRead 0x76 BME280_REG_TEMP_MSB 3]\<rparr>)"
proof -
  have "push_bit 12 (promote 0x6B) OR push_bit 4 (promote 0x70) OR signed_drop_bit 4 (promote 0)
          = (440064 :: 32 word)"
    by (simp add: promote_def)
  then show ?thesis
    by (simp add: readTemperature_def readRegisters_def Let_def upt_rec still_wire_def
        freezing_compensateTemperature example_driver_fields)
qed

lemma still_bursts:
  "burst still_wire 1 BME280_REG_TEMP_MSB 3 = burst still_wire 0 BME280_REG_TEMP_MSB 3"
  "burst still_wire 2 BME280_REG_PRESS_MSB 3 = burst still_wire 1 BME280_REG_PRESS_MSB 3"
  "burst still_wire 2 BME280_REG_HUM_MSB 2 = burst still_wire 1 BME280_REG_HUM_MSB 2"
  by (simp_all add: burst_def still_wire_def)

theorem temperature_pass_first_witness:
  "t_fine example_driver = 0
   \<and> readTemperature example_driver example_wire =
       (2508 / 100, example_driver\<lparr>t_fine := 128422\<rparr>,
        example_wire\<lparr>reads := 1, traffic := [BusRead 0x76 BME280_REG_TEMP_MSB 3]\<rparr>)
   \<and> t_fine (example_driver\<lparr>t_fine := 128422\<rparr>) \<noteq> 0
   \<and> readPressure example_driver example_wire =
       readPressure (example_driver\<lparr>t_fine := 128422\<rparr>)
         (example_wire\<lparr>reads := 1, traffic := [BusRead 0x76 BME280_REG_TEMP_MSB 3]\<rparr>)
   \<and> readHumidity example_driver example_wire =
       readHumidity (example_driver\<lparr>t_fine := 128422\<rparr>)
         (example_wire\<lparr>reads := 1, traffic := [BusRead 0x76 BME280_REG_TEMP_MSB 3]\<rparr>)
   \<and> map_option fst (readPressure example_driver example_wire) = Some (25767233 / 100)
   \<and> fst (readHumidity example_driver example_wire) = 55283 / 1024
   \<and> readTemperature example_driver still_wire =
       (0, example_driver,
        still_wire\<lparr>reads := 1, traffic := [BusRead 0x76 BME280_REG_TEMP_MSB 3]\<rparr>)
   \<and> burst still_wire 1 BME280_REG_TEMP_MSB 3 = burst still_wire 0 BME280_REG_TEMP_MSB 3
   \<and> burst still_wire 2 BME280_REG_PRESS_MSB 3 = burst still_wire 1 BME280_REG_PRESS_MSB 3
   \<and> burst still_wire 2 BME280_REG_HUM_MSB 2 = burst still_wire 1 BME280_REG_HUM_MSB 2
   \<and> map_option fst (readPressure example_driver still_wire) = Some (24847731 / 100)
   \<and> map_option fst
         (readPressure example_driver
            (still_wire\<lparr>reads := 1, traffic := [BusRead 0x76 BME280_REG_TEMP_MSB 3]\<rparr>))
       = Some (24847731 / 100)
   \<and> fst (readHumidity example_driver still_wire) = 54045 / 1024
   \<and> fst (readHumidity example_driver
              (still_wire\<lparr>reads := 1, traffic := [BusRead 0x76 BME280_REG_TEMP_MSB 3]\<rparr>))
       = 54045 / 1024"
proof -
  let ?d1 = "example_driver\<lparr>t_fine := 128422\<rparr>"
  let ?w1 = "example_wire\<lparr>reads := 1, traffic := [BusRead 0x76 BME280_REG_TEMP_MSB 3]\<rparr>"
  let ?s1 = "still_wire\<lparr>reads := 1, traffic := [BusRead 0x76 BME280_REG_TEMP_MSB 3]\<rparr>"
  have d: "device example_wire = (\<lambda>n. sensor_regs)"
    and r: "reads example_wire = 0" "traffic example_wire = []"
    by (simp_all add: example_wire_def)
  have t: "readTemperature example_driver example_wire = (2508 / 100, ?d1, ?w1)"
    using example_readTemperature [OF d] by (simp add: r)
  have nz: "t_fine ?d1 \<noteq> 0" by simp
  note e = temperature_pass_first [OF example_driver_fields(3) t]
  have e3: "readPressure example_driver example_wire = readPressure ?d1 ?w1"
           "readHumidity example_driver example_wire = readHumidity ?d1 ?w1"
    using e nz by blast+
  have raw: "raw20 0x65 0x5A 0xC0 = 415148" "raw16 0x75 0x30 = 30000"
            "raw20 0x65 0 0 = 413696" "raw16 0x75 0 = 29952"
    by (simp_all add: raw20_def raw16_def)
  have e1: "map_option fst (readPressure example_driver example_wire) = Some (25767233 / 100)"
    by (simp add: e [THEN conjunct1] d r sensor_regs_values raw example_compensatePressure)
  have e2: "fst (readHumidity example_driver example_wire) = 55283 / 1024"
    by (simp add: e [THEN conjunct2, THEN conjunct1] d r sensor_regs_values raw
        example_compensateHumidity)
  have sr: "reads still_wire = 0"
    by (simp add: still_wire_def)
  have sb: "burst still_wire (Suc (reads still_wire)) BME280_REG_TEMP_MSB 3
              = burst still_wire (reads still_wire) BME280_REG_TEMP_MSB 3"
           "burst still_wire (Suc (Suc (reads still_wire))) BME280_REG_PRESS_MSB 3
              = burst still_wire (Suc (reads still_wire)) BME280_REG_PRESS_MSB 3"
           "burst still_wire (Suc (Suc (reads still_wire))) BME280_REG_HUM_MSB 2
              = burst still_wire (Suc (reads still_wire)) BME280_REG_HUM_MSB 2"
    by (simp_all add: burst_def still_wire_def)
  note f = temperature_pass_first [OF example_driver_fields(3) still_readTemperature]
  have f1: "map_option fst (readPressure example_driver still_wire) = Some (24847731 / 100)"
    by (subst f [THEN conjunct1]) (simp add: still_wire_def raw freezing_compensatePressure)
  have f2: "fst (readHumidity example_driver still_wire) = 54045 / 1024"
    by (subst f [THEN conjunct2, THEN conjunct1])
       (simp add: still_wire_def raw freezing_compensateHumidity)
  have "map_option (\<lambda>r. (fst r, fst (snd r))) (readPressure example_driver still_wire)
          = map_option (\<lambda>r. (fst r, fst (snd r))) (readPressure example_driver ?s1)"
    using f sb by blast
  then have "map_option fst (map_option (\<lambda>r. (fst r, fst (snd r)))
                               (readPressure example_driver still_wire))
               = map_option fst (map_option (\<lambda>r. (fst r, fst (snd r)))
                                   (readPressure example_driver ?s1))"
    by simp
  then have f3: "map_option fst (readPressure example_driver ?s1) = Some (24847731 / 100)"
    using f1 by (simp add: option.map_comp comp_def)
  have "fst (readHumidity example_driver still_wire) = fst (readHumidity example_driver ?s1)"
    using f sb by blast
  then have f4: "fst (readHumidity example_driver ?s1) = 54045 / 1024"
    using f2 by simp
  from example_driver_fields(3) t nz e3 e1 e2 still_readTemperature still_bursts f1 f3 f2 f4
  show ?thesis by blast
qed

text \<open>
  The claim as stated, that the result always equals the one of \<open>readTemperature\<close>
  followed by the same read, fails when the temperature pass computes \<open>t_fine = 0\<close>:
  the read that follows \<open>readTemperature\<close> then makes a second temperature pass and
  takes its pressure or humidity sample one transaction later. At the freezing point,
  with a sensor whose data registers change in between, the two results differ.
\<close>

theorem temperature_pass_repeated_counterexample:
  "t_fine example_driver = 0
   \<and> map_option fst (readPressure example_driver freezing_wire) = Some (24847731 / 100)
   \<and> map_option fst (readPressure (fst (snd (readTemperature example_driver freezing_wire)))
                                   (snd (snd (readTemperature example_driver freezing_wire))))
       = Some (24674145 / 100)
   \<and> fst (readHumidity example_driver freezing_wire) = 54045 / 1024
   \<and> fst (readHumidity (fst (snd (readTemperature example_driver freezing_wire)))
                        (snd (snd (readTemperature example_driver freezing_wire))))
       = 69076 / 1024"
proof -
  have r: "reads freezing_wire = 0" by (simp add: freezing_wire_def)
  show ?thesis
    by (simp add: freezing_readPressure freezing_readHumidity freezing_readTemperature r
        example_driver_fields)
qed

end
